theory Spec2Isabelle
  imports Main
begin

section \<open>Command model\<close>

text \<open>
  Modelled from the spec: the declaration of the type \<open>Command\<close> and of \<open>NewCommand\<close> is
  not part of the two source files. The spec gives a command as a name plus an ordered
  sequence of string arguments, built by \<open>NewCommand(name, ...args)\<close> without validation.
  The source reads the fields as \<open>.Name\<close> and \<open>.Args\<close>.
\<close>

record Command =
  Name :: string
  Args :: "string list"

definition NewCommand :: "string \<Rightarrow> string list \<Rightarrow> Command" where
  "NewCommand name args = \<lparr>Name = name, Args = args\<rparr>"

text \<open>
  Modelled from the spec: \<open>SearchOption\<close>, \<open>SearchArea\<close> and \<open>OutputFormat\<close> are command
  fragments (a name and arguments); the source converts a \<open>SearchArea\<close> with \<open>Command(area)\<close>
  and reads \<open>.Name\<close> and \<open>.Args\<close> of the other two. \<open>DetectAction\<close> and \<open>NotifyCommand\<close>
  are string tags, converted by \<open>string(action)\<close>.
\<close>

type_synonym SearchOption = Command
type_synonym SearchArea = Command
type_synonym OutputFormat = Command
type_synonym DetectAction = string
type_synonym NotifyCommand = string

definition zeroCommand :: Command where
  \<comment> \<open>Go's zero value of the struct: empty name, nil arguments.\<close>
  "zeroCommand = \<lparr>Name = [], Args = []\<rparr>"

subsection \<open>strconv.Itoa\<close>

text \<open>
  The standard library's \<open>strconv.Itoa\<close>: base 10, a leading minus sign for negative numbers,
  no leading zeros. Go's \<open>int\<close> is modelled as \<open>int\<close>: the source does no arithmetic on these
  numbers, it only renders them.
\<close>

definition digit_char :: "nat \<Rightarrow> char" where
  "digit_char d = ''0123456789'' ! (d mod 10)"

fun digits :: "nat \<Rightarrow> string" where
  "digits n = (if n < 10 then [digit_char n] else digits (n div 10) @ [digit_char (n mod 10)])"

declare digits.simps [simp del]

definition Itoa :: "int \<Rightarrow> string" where
  "Itoa i = (if i < 0 then CHR ''-'' # digits (nat (- i)) else digits (nat i))"

subsection \<open>strings.Join\<close>

fun Join :: "string list \<Rightarrow> string \<Rightarrow> string" where
  "Join [] sep = []"
| "Join [x] sep = x"
| "Join (x # y # ys) sep = x @ sep @ Join (y # ys) sep"

section \<open>Fixed-shape requests (geofence.go)\<close>

record Request =
  Cmd :: string
  Key :: string
  Area :: Command
  OutputFormat :: OutputFormat
  DetectActions :: "DetectAction list"
  Options :: "SearchOption list"

definition append_options :: "SearchOption list \<Rightarrow> string list \<Rightarrow> string list" where
  \<comment> \<open>\<open>for _, opt := range opts { args = append(args, opt.Name); args = append(args, opt.Args...) }\<close>\<close>
  "append_options opts args = fold (\<lambda>opt args. (args @ [Name opt]) @ Args opt) opts args"

definition join_actions_loop :: "DetectAction list \<Rightarrow> string" where
  \<comment> \<open>The loop with the \<open>first\<close> flag: a comma before every action but the first.\<close>
  "join_actions_loop acts =
     fst (fold (\<lambda>action (actions, first).
                  ((if \<not> first then actions @ '','' else actions) @ action, False))
               acts ([], True))"

definition append_detect :: "DetectAction list \<Rightarrow> string list \<Rightarrow> string list" where
  \<comment> \<open>\<open>if len(req.DetectActions) > 0 { ... }\<close>\<close>
  "append_detect acts args =
     (if length acts > 0 then (args @ [''DETECT'']) @ [join_actions_loop acts] else args)"

definition append_format :: "OutputFormat \<Rightarrow> string list \<Rightarrow> string list" where
  \<comment> \<open>\<open>if len(fmt.Name) > 0 { args = append(args, fmt.Name); args = append(args, fmt.Args...) }\<close>\<close>
  "append_format fmt args =
     (if length (Name fmt) > 0 then (args @ [Name fmt]) @ Args fmt else args)"

definition Request_GeofenceCommand :: "Request \<Rightarrow> Command" where
  "Request_GeofenceCommand req =
     (let args = [];
          args = args @ [Request.Key req];
          args = append_options (Request.Options req) args;
          args = args @ [''FENCE''];
          args = append_detect (Request.DetectActions req) args;
          args = append_format (Request.OutputFormat req) args;
          args = args @ [Name (Area req)];
          args = args @ Args (Area req)
      in NewCommand (Cmd req) args)"

text \<open>
  The setters take a pointer receiver, assign one field and return the same pointer: the
  model passes the request through and returns it updated.
\<close>

definition Request_Actions :: "Request \<Rightarrow> DetectAction list \<Rightarrow> Request" where
  "Request_Actions req actions = req\<lparr>Request.DetectActions := actions\<rparr>"

definition Request_WithOptions :: "Request \<Rightarrow> SearchOption list \<Rightarrow> Request" where
  "Request_WithOptions req opts = req\<lparr>Request.Options := opts\<rparr>"

definition Request_Format :: "Request \<Rightarrow> OutputFormat \<Rightarrow> Request" where
  "Request_Format req fmt = req\<lparr>Request.OutputFormat := fmt\<rparr>"

text \<open>The constructors set three fields; the others keep Go's zero values.\<close>

definition GeofenceWithin :: "string \<Rightarrow> SearchArea \<Rightarrow> Request" where
  "GeofenceWithin key area =
     \<lparr>Cmd = ''WITHIN'', Key = key, Area = area, OutputFormat = zeroCommand,
      DetectActions = [], Options = []\<rparr>"

definition GeofenceIntersects :: "string \<Rightarrow> SearchArea \<Rightarrow> Request" where
  "GeofenceIntersects key area =
     \<lparr>Cmd = ''INTERSECTS'', Key = key, Area = area, OutputFormat = zeroCommand,
      DetectActions = [], Options = []\<rparr>"

text \<open>
  \<open>floatString\<close> is declared outside the two source files; it is a parameter \<open>fs\<close> of every
  definition that calls it, over an arbitrary type \<open>'f\<close> of float values.
\<close>

definition GeofenceNearby :: "('f \<Rightarrow> string) \<Rightarrow> string \<Rightarrow> 'f \<Rightarrow> 'f \<Rightarrow> 'f \<Rightarrow> Request" where
  "GeofenceNearby fs key lat lon meters =
     \<lparr>Cmd = ''NEARBY'', Key = key,
      Area = NewCommand ''POINT'' [fs lat, fs lon, fs meters],
      OutputFormat = zeroCommand, DetectActions = [], Options = []\<rparr>"

record RoamRequest =
  Key :: string
  Target :: string
  Pattern :: string
  Meters :: int
  OutputFormat :: OutputFormat
  DetectActions :: "DetectAction list"
  Options :: "SearchOption list"

definition RoamRequest_GeofenceCommand :: "RoamRequest \<Rightarrow> Command" where
  "RoamRequest_GeofenceCommand req =
     (let args = [];
          args = args @ [RoamRequest.Key req];
          args = append_options (RoamRequest.Options req) args;
          args = args @ [''FENCE''];
          args = append_detect (RoamRequest.DetectActions req) args;
          args = append_format (RoamRequest.OutputFormat req) args;
          args = args @ [''ROAM'', Target req, Pattern req, Itoa (Meters req)]
      in NewCommand ''NEARBY'' args)"

definition RoamRequest_Actions :: "RoamRequest \<Rightarrow> DetectAction list \<Rightarrow> RoamRequest" where
  "RoamRequest_Actions req actions = req\<lparr>RoamRequest.DetectActions := actions\<rparr>"

definition RoamRequest_WithOptions :: "RoamRequest \<Rightarrow> SearchOption list \<Rightarrow> RoamRequest" where
  "RoamRequest_WithOptions req opts = req\<lparr>RoamRequest.Options := opts\<rparr>"

definition RoamRequest_Format :: "RoamRequest \<Rightarrow> OutputFormat \<Rightarrow> RoamRequest" where
  "RoamRequest_Format req fmt = req\<lparr>RoamRequest.OutputFormat := fmt\<rparr>"

definition GeofenceRoam :: "string \<Rightarrow> string \<Rightarrow> string \<Rightarrow> int \<Rightarrow> RoamRequest" where
  "GeofenceRoam key target pattern meters =
     \<lparr>Key = key, Target = target, Pattern = pattern, Meters = meters,
      OutputFormat = zeroCommand, DetectActions = [], Options = []\<rparr>"

datatype GeofenceRequestable = IsRequest Request | IsRoamRequest RoamRequest

fun GeofenceCommand :: "GeofenceRequestable \<Rightarrow> Command" where
  \<comment> \<open>The interface method, dispatched to the two types that implement it.\<close>
  "GeofenceCommand (IsRequest req) = Request_GeofenceCommand req"
| "GeofenceCommand (IsRoamRequest req) = RoamRequest_GeofenceCommand req"

section \<open>Slices and their backing arrays\<close>

text \<open>
  The unified builder is passed and returned by value, but its three slice fields are
  headers (pointer, length, capacity) over backing arrays that copies of the builder share.
  \<open>append\<close> writes into the backing array when the capacity suffices and allocates a new
  array otherwise, so the arrays live in an explicit heap: an address gives an array, an
  array gives a value at every index. The nil slice has length and capacity 0.
\<close>

record slice =
  ptr :: nat
  len :: nat
  cap :: nat

definition nil_slice :: slice where
  "nil_slice = \<lparr>ptr = 0, len = 0, cap = 0\<rparr>"

record 'a heap =
  cells :: "nat \<Rightarrow> nat \<Rightarrow> 'a"
  next_free :: nat

definition slice_elems :: "'a heap \<Rightarrow> slice \<Rightarrow> 'a list" where
  \<comment> \<open>What \<open>range s\<close> and \<open>s[i]\<close> for \<open>i < len(s)\<close> read.\<close>
  "slice_elems h s = map (cells h (ptr s)) [0..<len s]"

definition store_at :: "(nat \<Rightarrow> 'a) \<Rightarrow> nat \<Rightarrow> 'a list \<Rightarrow> nat \<Rightarrow> 'a" where
  \<comment> \<open>The array after writing \<open>vs\<close> at the indices \<open>i, i + 1, ...\<close>\<close>
  "store_at arr i vs = (\<lambda>j. if i \<le> j \<and> j < i + length vs then vs ! (j - i) else arr j)"

text \<open>
  The language fixes when \<open>append\<close> reallocates (the capacity is too small) and that the
  new array is large enough; how much larger is the runtime's choice, the parameter
  \<open>grow\<close> (old capacity, needed length). \<open>zero\<close> is the element type's zero value, which
  fills a new array beyond the copied elements.
\<close>

definition append_slice ::
  "(nat \<Rightarrow> nat \<Rightarrow> nat) \<Rightarrow> 'a \<Rightarrow> 'a heap \<Rightarrow> slice \<Rightarrow> 'a list \<Rightarrow> slice \<times> 'a heap" where
  "append_slice grow zero h s vs =
     (let n = len s + length vs in
      if n \<le> cap s then
        (s\<lparr>len := n\<rparr>,
         h\<lparr>cells := (cells h)(ptr s := store_at (cells h (ptr s)) (len s) vs)\<rparr>)
      else
        (let p = next_free h; c = max n (grow (cap s) n) in
         (\<lparr>ptr = p, len = n, cap = c\<rparr>,
          \<lparr>cells = (cells h)(p := store_at (\<lambda>i. zero) 0 (slice_elems h s @ vs)),
           next_free = Suc p\<rparr>)))"

definition double_growth :: "nat \<Rightarrow> nat \<Rightarrow> nat" where
  \<comment> \<open>Doubling: twice the old capacity, or the needed length when that is larger. The Go
      runtime starts from this number for slices of fewer than 256 elements and then rounds
      the new array up to an allocator size class; the rounding is left out. The two agree
      for the appends evaluated below: arrays of 1, 2 and 4 \<open>Command\<close>s and of up to 3
      strings. For longer arrays the runtime may give a larger capacity.\<close>
  "double_growth oldcap n = (if n > oldcap + oldcap then n else oldcap + oldcap)"

record memory =
  strs :: "string heap"
  cmds :: "Command heap"

definition empty_memory :: memory where
  "empty_memory = \<lparr>strs = \<lparr>cells = (\<lambda>p i. []), next_free = 0\<rparr>,
                   cmds = \<lparr>cells = (\<lambda>p i. zeroCommand), next_free = 0\<rparr>\<rparr>"

section \<open>The unified builder (geofence\_query\_builder.go)\<close>

text \<open>
  Modelled from the spec: the type \<open>Client\<close> and its method \<open>ExecuteStream\<close> are outside
  the two source files. \<open>ExecuteStream(ctx, name, args...)\<close> gives a start error or a stream
  of raw payloads; the stream is the list of payloads it yields before it is closed.
  The context only reaches this collaborator and is left out.
\<close>

record ('e, 'r) Client =
  ExecuteStream :: "string \<Rightarrow> string list \<Rightarrow> 'e + 'r list"

record ('e, 'r) GeofenceQueryBuilder =
  client :: "('e, 'r) Client"
  isRoamQuery :: bool
  cmd :: string
  key :: string
  area :: Command
  target :: string
  pattern :: string
  meters :: int
  outputFormat :: OutputFormat
  detectActions :: slice
  notifyCommands :: slice
  searchOpts :: slice

definition newGeofenceQueryBuilder ::
  "('e, 'r) Client \<Rightarrow> string \<Rightarrow> string \<Rightarrow> Command \<Rightarrow> ('e, 'r) GeofenceQueryBuilder" where
  "newGeofenceQueryBuilder c cmd' key' area' =
     \<lparr>client = c, isRoamQuery = False, cmd = cmd', key = key', area = area',
      target = [], pattern = [], meters = 0, outputFormat = zeroCommand,
      detectActions = nil_slice, notifyCommands = nil_slice, searchOpts = nil_slice\<rparr>"

definition newGeofenceRoamQueryBuilder ::
  "('e, 'r) Client \<Rightarrow> string \<Rightarrow> string \<Rightarrow> string \<Rightarrow> int \<Rightarrow> ('e, 'r) GeofenceQueryBuilder" where
  "newGeofenceRoamQueryBuilder c key' target' pattern' meters' =
     \<lparr>client = c, isRoamQuery = True, cmd = [], key = key', area = zeroCommand,
      target = target', pattern = pattern', meters = meters', outputFormat = zeroCommand,
      detectActions = nil_slice, notifyCommands = nil_slice, searchOpts = nil_slice\<rparr>"

definition append_tags :: "string \<Rightarrow> string list \<Rightarrow> string list \<Rightarrow> string list" where
  \<comment> \<open>\<open>if len(tags) > 0 { args = append(args, kw); ...; args = append(args, strings.Join(actions, ",")) }\<close>,
      where \<open>actions[i] = string(tags[i])\<close>\<close>
  "append_tags kw tags args =
     (if length tags > 0 then (args @ [kw]) @ [Join (map (\<lambda>t. t) tags) '',''] else args)"

definition args :: "memory \<Rightarrow> ('e, 'r) GeofenceQueryBuilder \<Rightarrow> string list" where
  "args m query =
     (let args = [];
          args = append_options (slice_elems (cmds m) (searchOpts query)) args;
          args = args @ [''FENCE''];
          args = append_tags ''DETECT'' (slice_elems (strs m) (detectActions query)) args;
          args = append_tags ''COMMANDS'' (slice_elems (strs m) (notifyCommands query)) args;
          args = append_format (outputFormat query) args
      in args)"

definition toCmd :: "memory \<Rightarrow> ('e, 'r) GeofenceQueryBuilder \<Rightarrow> Command" where
  "toCmd m query =
     (if isRoamQuery query then
        (let as = [];
             as = as @ [key query];
             as = as @ args m query;
             as = as @ [''ROAM'', target query, pattern query, Itoa (meters query)]
         in NewCommand ''NEARBY'' as)
      else
        (let as = [];
             as = as @ [key query];
             as = as @ args m query;
             as = as @ [Name (area query)];
             as = as @ Args (area query)
         in NewCommand (cmd query) as))"

text \<open>
  Every method has a value receiver: it works on a copy of the builder, reassigns one
  field of the copy and returns it. The appends go through the heap.
\<close>

definition Actions ::
  "(nat \<Rightarrow> nat \<Rightarrow> nat) \<Rightarrow> memory \<Rightarrow> ('e, 'r) GeofenceQueryBuilder \<Rightarrow> DetectAction list
     \<Rightarrow> ('e, 'r) GeofenceQueryBuilder \<times> memory" where
  "Actions g m query actions =
     (case append_slice g [] (strs m) (detectActions query) actions of
        (s, h) \<Rightarrow> (query\<lparr>detectActions := s\<rparr>, m\<lparr>strs := h\<rparr>))"

definition Commands ::
  "(nat \<Rightarrow> nat \<Rightarrow> nat) \<Rightarrow> memory \<Rightarrow> ('e, 'r) GeofenceQueryBuilder \<Rightarrow> NotifyCommand list
     \<Rightarrow> ('e, 'r) GeofenceQueryBuilder \<times> memory" where
  "Commands g m query notify =
     (case append_slice g [] (strs m) (notifyCommands query) notify of
        (s, h) \<Rightarrow> (query\<lparr>notifyCommands := s\<rparr>, m\<lparr>strs := h\<rparr>))"

definition add_searchOpt ::
  "(nat \<Rightarrow> nat \<Rightarrow> nat) \<Rightarrow> memory \<Rightarrow> ('e, 'r) GeofenceQueryBuilder \<Rightarrow> Command
     \<Rightarrow> ('e, 'r) GeofenceQueryBuilder \<times> memory" where
  \<comment> \<open>\<open>query.searchOpts = append(query.searchOpts, c); return query\<close>\<close>
  "add_searchOpt g m query c =
     (case append_slice g zeroCommand (cmds m) (searchOpts query) [c] of
        (s, h) \<Rightarrow> (query\<lparr>searchOpts := s\<rparr>, m\<lparr>cmds := h\<rparr>))"

definition Asc where
  "Asc g m query = add_searchOpt g m query (NewCommand ''ASC'' [])"

definition Desc where
  "Desc g m query = add_searchOpt g m query (NewCommand ''DESC'' [])"

definition NoFields where
  "NoFields g m query = add_searchOpt g m query (NewCommand ''NOFIELDS'' [])"

definition Clip where
  "Clip g m query = add_searchOpt g m query (NewCommand ''CLIP'' [])"

definition Distance where
  "Distance g m query = add_searchOpt g m query (NewCommand ''DISTANCE'' [])"

definition Cursor where
  "Cursor g m query (cursor :: int) = add_searchOpt g m query (NewCommand ''CURSOR'' [Itoa cursor])"

definition Limit where
  "Limit g m query (limit :: int) = add_searchOpt g m query (NewCommand ''LIMIT'' [Itoa limit])"

definition Sparse where
  "Sparse g m query (sparse :: int) = add_searchOpt g m query (NewCommand ''SPARSE'' [Itoa sparse])"

definition Where where
  "Where fs g m query (field :: string) min' max' =
     add_searchOpt g m query (NewCommand ''WHERE'' [field, fs min', fs max'])"

definition Wherein where
  "Wherein fs g m query (field :: string) values =
     (let as = [];
          as = as @ [Itoa (int (length values))];
          as = fold (\<lambda>val as. as @ [fs val]) values as
      in add_searchOpt g m query (NewCommand ''WHEREIN'' as))"

definition Match where
  "Match g m query (pattern' :: string) = add_searchOpt g m query (NewCommand ''MATCH'' [pattern'])"

definition Format :: "('e, 'r) GeofenceQueryBuilder \<Rightarrow> OutputFormat \<Rightarrow> ('e, 'r) GeofenceQueryBuilder" where
  "Format query fmt = query\<lparr>outputFormat := fmt\<rparr>"

section \<open>Streaming execution\<close>

text \<open>
  \<open>json.Unmarshal\<close> is the parameter \<open>decode\<close>: a raw payload gives a decode error or a
  typed record (\<open>GeofenceEvent\<close> in callback mode, \<open>Response\<close> in queue mode; both types
  are declared outside the two source files and are type variables here).
\<close>

subsection \<open>Callback mode: GeofenceQueryBuilder.Do\<close>

datatype 'e do_error =
    CommandError Command 'e  \<comment> \<open>\<open>fmt.Errorf("command: %s: %v", cmd, err)\<close>\<close>
  | UnmarshalError 'e  \<comment> \<open>\<open>fmt.Errorf("json unmarshal geofence response: %v", err)\<close>\<close>

text \<open>
  The handler is the caller's: its effect is a change of the caller's state \<open>'s\<close>. The
  result of \<open>Do\<close> is the returned error (\<open>None\<close> for nil) with the state the handler calls
  have left.
\<close>

fun Do_loop ::
  "('r \<Rightarrow> 'e + 'v) \<Rightarrow> ('v \<Rightarrow> 's \<Rightarrow> 's) \<Rightarrow> 'r list \<Rightarrow> 's \<Rightarrow> 'e do_error option \<times> 's" where
  "Do_loop decode handler [] s = (None, s)"
| "Do_loop decode handler (event # events) s =
     (case decode event of
        Inl err \<Rightarrow> (Some (UnmarshalError err), s)
      | Inr resp \<Rightarrow> Do_loop decode handler events (handler resp s))"

definition Do ::
  "memory \<Rightarrow> ('e, 'r) GeofenceQueryBuilder \<Rightarrow> ('r \<Rightarrow> 'e + 'v) \<Rightarrow> ('v \<Rightarrow> 's \<Rightarrow> 's) \<Rightarrow> 's
     \<Rightarrow> 'e do_error option \<times> 's" where
  "Do m query decode handler s =
     (let c = toCmd m query in
      case ExecuteStream (client query) (Name c) (Args c) of
        Inl err \<Rightarrow> (Some (CommandError c err), s)
      | Inr events \<Rightarrow> Do_loop decode handler events s)"

subsection \<open>Queue mode: Client.Fence\<close>

text \<open>
  \<open>Fence\<close> returns a start error, or a channel of capacity 10 together with a background
  task that feeds it. The task and the channel's reader run concurrently: the state below
  holds both, and a schedule (which of the two moves next) drives it. A move of a thread
  that is blocked, or has ended, leaves the state as it is.
\<close>

datatype 'v task_state =
    Receiving  \<comment> \<open>at the head of \<open>for event := range events\<close>\<close>
  | Sending 'v  \<comment> \<open>at \<open>ch <- resp\<close>\<close>
  | Exited  \<comment> \<open>the function has returned; the deferred \<open>close(ch)\<close> has run\<close>

record ('r, 'v, 'e) fence_state =
  stream :: "'r list"  \<comment> \<open>payloads the transport has still to yield before it closes\<close>
  task :: "'v task_state"
  buf :: "'v list"  \<comment> \<open>the contents of \<open>ch\<close>, oldest first\<close>
  closed :: bool  \<comment> \<open>\<open>ch\<close> is closed\<close>
  logged :: "'e list"  \<comment> \<open>the errors given to \<open>log.Printf\<close>\<close>
  received :: "'v list"  \<comment> \<open>what the reader has taken out of \<open>ch\<close>, in order\<close>
  saw_close :: bool  \<comment> \<open>a receive of the reader has reported the closed, drained channel\<close>

definition chan_capacity :: nat where
  "chan_capacity = 10"

definition fence_start :: "'r list \<Rightarrow> ('r, 'v, 'e) fence_state" where
  \<comment> \<open>After \<open>ch := make(chan Response, 10)\<close> and the \<open>go\<close> statement.\<close>
  "fence_start events =
     \<lparr>stream = events, task = Receiving, buf = [], closed = False, logged = [],
      received = [], saw_close = False\<rparr>"

definition Fence ::
  "('e, 'r) Client \<Rightarrow> GeofenceRequestable \<Rightarrow> 'e + ('r, 'v, 'e) fence_state" where
  "Fence cl req =
     (let c = GeofenceCommand req in
      case ExecuteStream cl (Name c) (Args c) of
        Inl err \<Rightarrow> Inl err
      | Inr events \<Rightarrow> Inr (fence_start events))"

definition task_step ::
  "('r \<Rightarrow> 'e + 'v) \<Rightarrow> ('r, 'v, 'e) fence_state \<Rightarrow> ('r, 'v, 'e) fence_state" where
  "task_step decode st =
     (case task st of
        Receiving \<Rightarrow>
          (case stream st of
             [] \<Rightarrow> st\<lparr>task := Exited, closed := True\<rparr>
           | event # rest \<Rightarrow>
               (case decode event of
                  Inl err \<Rightarrow>
                    st\<lparr>stream := rest, logged := logged st @ [err], task := Exited, closed := True\<rparr>
                | Inr resp \<Rightarrow> st\<lparr>stream := rest, task := Sending resp\<rparr>))
      | Sending resp \<Rightarrow>
          (if length (buf st) < chan_capacity
           then st\<lparr>buf := buf st @ [resp], task := Receiving\<rparr>
           else st)
      | Exited \<Rightarrow> st)"

definition reader_step :: "('r, 'v, 'e) fence_state \<Rightarrow> ('r, 'v, 'e) fence_state" where
  \<comment> \<open>One receive \<open>v, ok := <-ch\<close> of whoever holds the channel.\<close>
  "reader_step st =
     (case buf st of
        v # vs \<Rightarrow> st\<lparr>buf := vs, received := received st @ [v]\<rparr>
      | [] \<Rightarrow> (if closed st then st\<lparr>saw_close := True\<rparr> else st))"

datatype thread = Task | Reader

fun step :: "('r \<Rightarrow> 'e + 'v) \<Rightarrow> thread \<Rightarrow> ('r, 'v, 'e) fence_state \<Rightarrow> ('r, 'v, 'e) fence_state" where
  "step decode Task st = task_step decode st"
| "step decode Reader st = reader_step st"

definition run ::
  "('r \<Rightarrow> 'e + 'v) \<Rightarrow> thread list \<Rightarrow> ('r, 'v, 'e) fence_state \<Rightarrow> ('r, 'v, 'e) fence_state" where
  "run decode sched st = fold (step decode) sched st"

subsection \<open>What a stream decodes to\<close>

fun decoded_prefix :: "('r \<Rightarrow> 'e + 'v) \<Rightarrow> 'r list \<Rightarrow> 'v list" where
  \<comment> \<open>The records of the payloads before the first one that fails to decode.\<close>
  "decoded_prefix decode [] = []"
| "decoded_prefix decode (event # events) =
     (case decode event of Inl err \<Rightarrow> [] | Inr resp \<Rightarrow> resp # decoded_prefix decode events)"

fun first_error :: "('r \<Rightarrow> 'e + 'v) \<Rightarrow> 'r list \<Rightarrow> 'e option" where
  \<comment> \<open>The decode error of the first payload that fails, if one does.\<close>
  "first_error decode [] = None"
| "first_error decode (event # events) =
     (case decode event of Inl err \<Rightarrow> Some err | Inr resp \<Rightarrow> first_error decode events)"

definition pending :: "'v task_state \<Rightarrow> 'v list" where
  \<comment> \<open>The record the task holds between decoding and sending.\<close>
  "pending t = (case t of Sending v \<Rightarrow> [v] | _ \<Rightarrow> [])"

definition work_left :: "('r, 'v, 'e) fence_state \<Rightarrow> nat" where
  \<comment> \<open>A bound on the moves that still change the state.\<close>
  "work_left st =
     3 * length (stream st)
     + (case task st of Receiving \<Rightarrow> 1 | Sending v \<Rightarrow> 3 | Exited \<Rightarrow> 0)
     + length (buf st)
     + (if saw_close st then 0 else 1)"

section \<open>Reference notions for the assembled commands\<close>

text \<open>
  The argument grammar speaks of tags "joined with commas" and of options "appended as name
  then arguments, in order". These two functions say it directly; the assembly loops above
  are compared with them.
\<close>

definition joined_with_commas :: "string list \<Rightarrow> string" where
  "joined_with_commas tags =
     (case tags of [] \<Rightarrow> [] | t # ts \<Rightarrow> t @ concat (map (\<lambda>u. CHR '','' # u) ts))"

definition fragments :: "Command list \<Rightarrow> string list" where
  "fragments opts = concat (map (\<lambda>opt. Name opt # Args opt) opts)"

text \<open>
  Reading back: \<open>split_commas\<close> cuts a token at its commas, \<open>Atoi\<close> reads a decimal numeral
  with an optional minus sign. They are the inverses against which the joined token and
  \<open>Itoa\<close> are checked.
\<close>

fun split_commas :: "string \<Rightarrow> string list" where
  "split_commas [] = [[]]"
| "split_commas (c # cs) =
     (if c = CHR '','' then [] # split_commas cs
      else (case split_commas cs of [] \<Rightarrow> [[c]] | w # ws \<Rightarrow> (c # w) # ws))"

definition digit_value :: "char \<Rightarrow> nat" where
  "digit_value c = of_char c - 48"

definition decimal_value :: "string \<Rightarrow> nat" where
  "decimal_value ds = foldl (\<lambda>acc c. 10 * acc + digit_value c) 0 ds"

definition Atoi :: "string \<Rightarrow> int" where
  "Atoi s = (if s \<noteq> [] \<and> hd s = CHR ''-'' then - int (decimal_value (tl s))
             else int (decimal_value s))"

section \<open>Invariant of the queue-mode pipeline\<close>

fun after_first_error :: "('r \<Rightarrow> 'e + 'v) \<Rightarrow> 'r list \<Rightarrow> 'r list" where
  \<comment> \<open>The payloads that follow the first one that fails to decode.\<close>
  "after_first_error decode [] = []"
| "after_first_error decode (event # events) =
     (case decode event of Inl err \<Rightarrow> events | Inr resp \<Rightarrow> after_first_error decode events)"

definition fence_inv ::
  "('r \<Rightarrow> 'e + 'v) \<Rightarrow> 'r list \<Rightarrow> ('r, 'v, 'e) fence_state \<Rightarrow> bool" where
  "fence_inv decode events st \<longleftrightarrow>
     (decoded_prefix decode events
      = received st @ buf st @ pending (task st)
        @ (if task st = Exited then [] else decoded_prefix decode (stream st))) \<and>
     (task st = Exited \<longleftrightarrow> closed st) \<and>
     (saw_close st \<longrightarrow> closed st \<and> buf st = []) \<and>
     length (buf st) \<le> chan_capacity \<and>
     (if task st = Exited
      then logged st = (case first_error decode events of None \<Rightarrow> [] | Some err \<Rightarrow> [err]) \<and>
           after_first_error decode events = stream st
      else logged st = [] \<and>
           first_error decode events = first_error decode (stream st) \<and>
           after_first_error decode events = after_first_error decode (stream st))"

section \<open>Example inputs\<close>

definition example_area :: Command where
  "example_area = NewCommand ''GET'' [''zones'', ''a'']"

definition example_decode :: "string \<Rightarrow> string + nat" where
  \<comment> \<open>A stand-in decoder for the examples: the payload \<open>{\<close> is malformed, any other payload
      decodes to its length.\<close>
  "example_decode payload =
     (if payload = ''{'' then Inl ''unexpected end of JSON input'' else Inr (length payload))"

definition stream_client :: "string list \<Rightarrow> (string, string) Client" where
  "stream_client events = \<lparr>ExecuteStream = (\<lambda>name as. Inr events)\<rparr>"

definition failing_client :: "(string, string) Client" where
  "failing_client = \<lparr>ExecuteStream = (\<lambda>name as. Inl ''connection refused'')\<rparr>"

section \<open>The assembled argument lists in closed form\<close>

lemma append_options_eq: "append_options opts as = as @ fragments opts"
  unfolding append_options_def fragments_def
  by (induction opts arbitrary: as) simp_all

lemma join_fold_rest:
  "fold (\<lambda>action (actions, first).
           ((if \<not> first then actions @ '','' else actions) @ action, False)) acts (acc, False)
   = (acc @ concat (map (\<lambda>u. CHR '','' # u) acts), False)"
  by (induction acts arbitrary: acc) simp_all

lemma join_actions_loop_eq: "join_actions_loop acts = joined_with_commas acts"
  unfolding join_actions_loop_def joined_with_commas_def
  by (cases acts) (simp_all add: join_fold_rest)

lemma Join_eq: "Join tags '','' = joined_with_commas tags"
  unfolding joined_with_commas_def
  by (induction tags "'',''" rule: Join.induct) simp_all

lemma append_detect_eq:
  "append_detect acts as = as @ (if acts = [] then [] else [''DETECT'', joined_with_commas acts])"
  by (simp add: append_detect_def join_actions_loop_eq)

lemma append_tags_eq:
  "append_tags kw tags as = as @ (if tags = [] then [] else [kw, joined_with_commas tags])"
  by (simp add: append_tags_def Join_eq)

lemma append_format_eq:
  "append_format fmt as = as @ (if Name fmt = [] then [] else Name fmt # Args fmt)"
  by (simp add: append_format_def)

lemma Request_args_eq:
  "Args (Request_GeofenceCommand req) =
     Request.Key req # fragments (Request.Options req)
     @ [''FENCE'']
     @ (if Request.DetectActions req = [] then []
        else [''DETECT'', joined_with_commas (Request.DetectActions req)])
     @ (if Name (Request.OutputFormat req) = [] then []
        else Name (Request.OutputFormat req) # Args (Request.OutputFormat req))
     @ Name (Area req) # Args (Area req)"
  by (simp add: Request_GeofenceCommand_def NewCommand_def append_options_eq append_detect_eq
      append_format_eq)

lemma Request_name_eq: "Name (Request_GeofenceCommand req) = Cmd req"
  by (simp add: Request_GeofenceCommand_def NewCommand_def Let_def)

lemma RoamRequest_args_eq:
  "Args (RoamRequest_GeofenceCommand req) =
     RoamRequest.Key req # fragments (RoamRequest.Options req)
     @ [''FENCE'']
     @ (if RoamRequest.DetectActions req = [] then []
        else [''DETECT'', joined_with_commas (RoamRequest.DetectActions req)])
     @ (if Name (RoamRequest.OutputFormat req) = [] then []
        else Name (RoamRequest.OutputFormat req) # Args (RoamRequest.OutputFormat req))
     @ [''ROAM'', Target req, Pattern req, Itoa (Meters req)]"
  by (simp add: RoamRequest_GeofenceCommand_def NewCommand_def append_options_eq append_detect_eq
      append_format_eq)

lemma RoamRequest_name_eq: "Name (RoamRequest_GeofenceCommand req) = ''NEARBY''"
  by (simp add: RoamRequest_GeofenceCommand_def NewCommand_def Let_def)

lemma args_eq:
  "args m query =
     fragments (slice_elems (cmds m) (searchOpts query))
     @ [''FENCE'']
     @ (if slice_elems (strs m) (detectActions query) = [] then []
        else [''DETECT'', joined_with_commas (slice_elems (strs m) (detectActions query))])
     @ (if slice_elems (strs m) (notifyCommands query) = [] then []
        else [''COMMANDS'', joined_with_commas (slice_elems (strs m) (notifyCommands query))])
     @ (if Name (outputFormat query) = [] then []
        else Name (outputFormat query) # Args (outputFormat query))"
  by (simp add: args_def append_options_eq append_tags_eq append_format_eq)

lemma toCmd_roam_eq:
  "isRoamQuery query \<Longrightarrow>
   toCmd m query =
     \<lparr>Name = ''NEARBY'',
      Args = key query # args m query @ [''ROAM'', target query, pattern query, Itoa (meters query)]\<rparr>"
  by (simp add: toCmd_def NewCommand_def)

lemma toCmd_area_eq:
  "\<not> isRoamQuery query \<Longrightarrow>
   toCmd m query =
     \<lparr>Name = cmd query, Args = key query # args m query @ Name (area query) # Args (area query)\<rparr>"
  by (simp add: toCmd_def NewCommand_def)

lemma toCmd_args_eq:
  "Args (toCmd m query) =
     key query # args m query
     @ (if isRoamQuery query
        then [''ROAM'', target query, pattern query, Itoa (meters query)]
        else Name (area query) # Args (area query))"
  by (simp add: toCmd_def NewCommand_def)

lemma toCmd_name_eq:
  "Name (toCmd m query) = (if isRoamQuery query then ''NEARBY'' else cmd query)"
  by (simp add: toCmd_def NewCommand_def)

section \<open>Decimal rendering and joined tokens read back\<close>

lemma digit_char_cases:
  "k < 10 \<Longrightarrow> digit_value (''0123456789'' ! k) = k \<and> ''0123456789'' ! k \<noteq> CHR ''-''"
proof -
  assume "k < 10"
  then have "k = 0 \<or> k = 1 \<or> k = 2 \<or> k = 3 \<or> k = 4 \<or> k = 5 \<or> k = 6 \<or> k = 7
    \<or> k = 8 \<or> k = 9"
    by arith
  then show ?thesis
    by (elim disjE) (simp_all add: digit_value_def)
qed

lemma digit_value_digit_char: "digit_value (digit_char d) = d mod 10"
  by (simp add: digit_char_def digit_char_cases)

lemma digit_char_not_minus: "digit_char d \<noteq> CHR ''-''"
  by (simp add: digit_char_def digit_char_cases)

lemma decimal_value_snoc: "decimal_value (ds @ [c]) = 10 * decimal_value ds + digit_value c"
  by (simp add: decimal_value_def)

lemma decimal_value_digits: "decimal_value (digits n) = n"
proof (induction n rule: digits.induct)
  case (1 n)
  show ?case
  proof (cases "n < 10")
    case True
    then show ?thesis
      by (simp add: digits.simps [of n] decimal_value_def digit_value_digit_char)
  next
    case False
    with "1" have "decimal_value (digits (n div 10)) = n div 10" by simp
    with False show ?thesis
      by (simp add: digits.simps [of n] decimal_value_snoc digit_value_digit_char)
  qed
qed

lemma digits_first: "\<exists>c cs. digits n = c # cs \<and> c \<noteq> CHR ''-''"
proof (induction n rule: digits.induct)
  case (1 n)
  show ?case
  proof (cases "n < 10")
    case True
    then show ?thesis
      by (simp add: digits.simps [of n] digit_char_not_minus)
  next
    case False
    with "1" obtain c cs where "digits (n div 10) = c # cs" "c \<noteq> CHR ''-''" by blast
    with False show ?thesis
      by (simp add: digits.simps [of n])
  qed
qed

lemma Atoi_Itoa: "Atoi (Itoa i) = i"
proof (cases "i < 0")
  case True
  then show ?thesis
    by (simp add: Itoa_def Atoi_def decimal_value_digits)
next
  case False
  obtain c cs where "digits (nat i) = c # cs" "c \<noteq> CHR ''-''"
    using digits_first by blast
  moreover have "decimal_value (digits (nat i)) = nat i"
    by (rule decimal_value_digits)
  ultimately show ?thesis
    using False by (simp add: Itoa_def Atoi_def)
qed

lemma split_commas_append:
  "CHR '','' \<notin> set t \<Longrightarrow>
   split_commas (t @ rest) = (t @ hd (split_commas rest)) # tl (split_commas rest)"
proof (induction t)
  case Nil
  show ?case by (cases rest) (simp_all split: list.splits)
next
  case (Cons c t)
  then show ?case by auto
qed

lemma joined_with_commas_Cons:
  "joined_with_commas (t # u # us) = t @ CHR '','' # joined_with_commas (u # us)"
  by (simp add: joined_with_commas_def)

lemma split_joined_with_commas:
  "tags \<noteq> [] \<Longrightarrow> \<forall>t\<in>set tags. CHR '','' \<notin> set t \<Longrightarrow>
   split_commas (joined_with_commas tags) = tags"
proof (induction tags rule: induct_list012)
  case 1
  then show ?case by simp
next
  case (2 t)
  then show ?case
    using split_commas_append [of t "[]"] by (simp add: joined_with_commas_def)
next
  case (3 t u us)
  then have "split_commas (joined_with_commas (u # us)) = u # us" by simp
  with "3.prems" show ?case
    by (simp add: joined_with_commas_Cons split_commas_append)
qed

section \<open>Appending to a slice\<close>

lemma map_store_at_fresh: "map (store_at arr 0 xs) [0..<length xs] = xs"
  by (rule nth_equalityI) (simp_all add: store_at_def)

lemma map_store_at_below: "map (store_at arr n vs) [0..<n] = map arr [0..<n]"
  by (simp add: store_at_def)

lemma map_store_at_written: "map (store_at arr n vs) [n..<n + length vs] = vs"
  by (rule nth_equalityI) (simp_all add: store_at_def)

lemma map_store_at_extend:
  "map (store_at arr n vs) [0..<n + length vs] = map arr [0..<n] @ vs"
proof -
  have "[0..<n + length vs] = [0..<n] @ [n..<n + length vs]"
    by (rule upt_add_eq_append) simp
  then show ?thesis
    by (simp add: map_store_at_below map_store_at_written)
qed

lemma append_slice_elems:
  "append_slice g z h s vs = (s', h') \<Longrightarrow> slice_elems h' s' = slice_elems h s @ vs"
proof (cases "len s + length vs \<le> cap s")
  case True
  assume "append_slice g z h s vs = (s', h')"
  with True have s': "s' = s\<lparr>len := len s + length vs\<rparr>"
    and h': "h' = h\<lparr>cells := (cells h)(ptr s := store_at (cells h (ptr s)) (len s) vs)\<rparr>"
    by (auto simp: append_slice_def Let_def)
  show ?thesis
    by (simp add: s' h' slice_elems_def map_store_at_extend)
next
  case False
  assume "append_slice g z h s vs = (s', h')"
  with False have s': "ptr s' = next_free h" "len s' = len s + length vs"
    and h': "cells h' (next_free h) = store_at (\<lambda>i. z) 0 (slice_elems h s @ vs)"
    by (auto simp: append_slice_def Let_def)
  have "len s + length vs = length (slice_elems h s @ vs)"
    by (simp add: slice_elems_def)
  then show ?thesis
    unfolding slice_elems_def [of h' s'] s' h'
    by (simp only: map_store_at_fresh)
qed

lemma append_slice_reads:
  "slice_elems (snd (append_slice g z h s vs)) (fst (append_slice g z h s vs)) = slice_elems h s @ vs"
  by (rule append_slice_elems) simp

lemma append_slice_in_place:
  "len s + length vs \<le> cap s \<Longrightarrow>
   append_slice g z h s vs =
     (s\<lparr>len := len s + length vs\<rparr>,
      h\<lparr>cells := (cells h)(ptr s := store_at (cells h (ptr s)) (len s) vs)\<rparr>)"
  by (simp add: append_slice_def Let_def)

section \<open>The builder methods\<close>

lemma add_searchOpt_elems:
  "add_searchOpt g m query c = (q', m') \<Longrightarrow>
   slice_elems (cmds m') (searchOpts q') = slice_elems (cmds m) (searchOpts query) @ [c]"
  by (auto simp: add_searchOpt_def split: prod.splits dest: append_slice_elems)

lemma Wherein_args_loop: "fold (\<lambda>val as. as @ [fs val]) vals as = as @ map fs vals"
  by (induction vals arbitrary: as) simp_all

lemma Wherein_eq:
  "Wherein fs g m query field values =
     add_searchOpt g m query (NewCommand ''WHEREIN'' (Itoa (int (length values)) # map fs values))"
  by (simp add: Wherein_def Wherein_args_loop)

lemma Wherein_fragment:
  "Wherein fs g m query field values = (q', m') \<Longrightarrow>
   fragments (slice_elems (cmds m') (searchOpts q')) =
     fragments (slice_elems (cmds m) (searchOpts query))
     @ ''WHEREIN'' # Itoa (int (length values)) # map fs values"
  by (auto simp: Wherein_eq fragments_def NewCommand_def dest: add_searchOpt_elems)

lemma Actions_effect:
  assumes "Actions g m query acts = (q', m')"
  shows "slice_elems (strs m') (detectActions q') = slice_elems (strs m) (detectActions query) @ acts"
    and "q' = query\<lparr>detectActions := detectActions q'\<rparr>"
    and "cmds m' = cmds m"
  using assms by (auto simp: Actions_def split: prod.splits dest: append_slice_elems)

lemma Commands_effect:
  assumes "Commands g m query tags = (q', m')"
  shows "slice_elems (strs m') (notifyCommands q') = slice_elems (strs m) (notifyCommands query) @ tags"
    and "q' = query\<lparr>notifyCommands := notifyCommands q'\<rparr>"
    and "cmds m' = cmds m"
  using assms by (auto simp: Commands_def split: prod.splits dest: append_slice_elems)

lemma add_searchOpt_effect:
  assumes "add_searchOpt g m query c = (q', m')"
  shows "q' = query\<lparr>searchOpts := searchOpts q'\<rparr>"
    and "strs m' = strs m"
  using assms by (auto simp: add_searchOpt_def split: prod.splits)

lemma add_searchOpt_reads:
  "slice_elems (cmds (snd (add_searchOpt g m query c))) (searchOpts (fst (add_searchOpt g m query c)))
   = slice_elems (cmds m) (searchOpts query) @ [c]"
  by (rule add_searchOpt_elems) simp

lemma Actions_reads:
  "slice_elems (strs (snd (Actions g m query acts))) (detectActions (fst (Actions g m query acts)))
   = slice_elems (strs m) (detectActions query) @ acts"
  by (rule Actions_effect(1)) simp

lemma Commands_reads:
  "slice_elems (strs (snd (Commands g m query tags))) (notifyCommands (fst (Commands g m query tags)))
   = slice_elems (strs m) (notifyCommands query) @ tags"
  by (rule Commands_effect(1)) simp

text \<open>
  Whatever the growth policy: when a builder has spare capacity, a second builder derived
  from it writes its option into the array cell that the first derived builder uses.
\<close>

lemma second_branch_overwrites_first:
  assumes spare: "len (searchOpts b1) < cap (searchOpts b1)"
    and b2: "add_searchOpt g m b1 c2 = (b2, m2)"
    and b3: "add_searchOpt g m2 b1 c3 = (b3, m3)"
  shows "slice_elems (cmds m3) (searchOpts b2) = slice_elems (cmds m) (searchOpts b1) @ [c3]"
proof -
  let ?s = "searchOpts b1"
  from spare have fits: "len ?s + length [c2] \<le> cap ?s" "len ?s + length [c3] \<le> cap ?s"
    by simp_all
  from b2 have s2: "searchOpts b2 = ?s\<lparr>len := len ?s + 1\<rparr>"
    and m2: "cells (cmds m2) = (cells (cmds m))(ptr ?s := store_at (cells (cmds m) (ptr ?s)) (len ?s) [c2])"
    by (auto simp: add_searchOpt_def append_slice_in_place [OF fits(1)])
  from b3 have m3: "cells (cmds m3) = (cells (cmds m2))(ptr ?s := store_at (cells (cmds m2) (ptr ?s)) (len ?s) [c3])"
    by (auto simp: add_searchOpt_def append_slice_in_place [OF fits(2)])
  have "store_at (store_at (cells (cmds m) (ptr ?s)) (len ?s) [c2]) (len ?s) [c3]
        = store_at (cells (cmds m) (ptr ?s)) (len ?s) [c3]"
    by (rule ext) (simp add: store_at_def)
  then have "slice_elems (cmds m3) (searchOpts b2)
             = map (store_at (cells (cmds m) (ptr ?s)) (len ?s) [c3]) [0..<len ?s + length [c3]]"
    by (simp add: slice_elems_def s2 m3 m2)
  also have "\<dots> = map (cells (cmds m) (ptr ?s)) [0..<len ?s] @ [c3]"
    by (rule map_store_at_extend)
  finally show ?thesis
    by (simp add: slice_elems_def)
qed

text \<open>
  What does hold: a builder is not changed by a builder derived from it, and two builders
  derived from a builder without spare capacity get arrays of their own.
\<close>

lemma append_slice_realloc:
  "\<not> len s + length vs \<le> cap s \<Longrightarrow>
   append_slice g z h s vs =
     (\<lparr>ptr = next_free h, len = len s + length vs, cap = max (len s + length vs) (g (cap s) (len s + length vs))\<rparr>,
      \<lparr>cells = (cells h)(next_free h := store_at (\<lambda>i. z) 0 (slice_elems h s @ vs)),
       next_free = Suc (next_free h)\<rparr>)"
  by (simp add: append_slice_def Let_def)

lemma append_slice_frame:
  assumes "append_slice g z h s vs = (s', h')"
    and "len t = 0 \<or> ptr t < next_free h"
    and "ptr t = ptr s \<longrightarrow> len t \<le> len s"
  shows "slice_elems h' t = slice_elems h t"
proof (cases "len s + length vs \<le> cap s")
  case True
  with assms(1) have h': "cells h' = (cells h)(ptr s := store_at (cells h (ptr s)) (len s) vs)"
    by (auto simp: append_slice_in_place)
  show ?thesis
  proof (cases "ptr t = ptr s")
    case True
    with assms(3) have "len t \<le> len s" by simp
    then have "map (store_at (cells h (ptr s)) (len s) vs) [0..<len t]
               = map (cells h (ptr s)) [0..<len t]"
      by (simp add: store_at_def)
    with True show ?thesis
      by (simp add: slice_elems_def h')
  next
    case False
    then show ?thesis
      by (simp add: slice_elems_def h')
  qed
next
  case False
  with assms(1) have h': "cells h' = (cells h)(next_free h := store_at (\<lambda>i. z) 0 (slice_elems h s @ vs))"
    by (auto simp: append_slice_realloc)
  from assms(2) show ?thesis
    by (auto simp: slice_elems_def h')
qed

lemma original_builder_unchanged:
  assumes "add_searchOpt g m b1 c = (b2, m2)"
    and "len (searchOpts b1) = 0 \<or> ptr (searchOpts b1) < next_free (cmds m)"
  shows "slice_elems (cmds m2) (searchOpts b1) = slice_elems (cmds m) (searchOpts b1)"
proof -
  obtain s h where a: "append_slice g zeroCommand (cmds m) (searchOpts b1) [c] = (s, h)"
    by (cases "append_slice g zeroCommand (cmds m) (searchOpts b1) [c]")
  with assms(1) have "cmds m2 = h"
    by (auto simp: add_searchOpt_def)
  moreover have "slice_elems h (searchOpts b1) = slice_elems (cmds m) (searchOpts b1)"
    by (rule append_slice_frame [OF a assms(2)]) simp
  ultimately show ?thesis by simp
qed

lemma branches_independent_without_spare_capacity:
  assumes full: "len (searchOpts b1) = cap (searchOpts b1)"
    and b2: "add_searchOpt g m b1 c2 = (b2, m2)"
    and b3: "add_searchOpt g m2 b1 c3 = (b3, m3)"
  shows "slice_elems (cmds m3) (searchOpts b2) = slice_elems (cmds m) (searchOpts b1) @ [c2]"
proof -
  let ?s = "searchOpts b1"
  from full have nofit: "\<not> len ?s + length [c2] \<le> cap ?s" "\<not> len ?s + length [c3] \<le> cap ?s"
    by simp_all
  from b2 have s2: "ptr (searchOpts b2) = next_free (cmds m)"
    and n2: "next_free (cmds m2) = Suc (next_free (cmds m))"
    by (auto simp: add_searchOpt_def append_slice_realloc [OF nofit(1)])
  from b3 have m3: "cells (cmds m3) =
      (cells (cmds m2))(next_free (cmds m2) := store_at (\<lambda>i. zeroCommand) 0 (slice_elems (cmds m2) ?s @ [c3]))"
    by (auto simp: add_searchOpt_def append_slice_realloc [OF nofit(2)])
  have "slice_elems (cmds m3) (searchOpts b2) = slice_elems (cmds m2) (searchOpts b2)"
    by (simp add: slice_elems_def m3 s2 n2)
  also have "\<dots> = slice_elems (cmds m) ?s @ [c2]"
    by (rule add_searchOpt_elems [OF b2])
  finally show ?thesis .
qed

section \<open>Setters and builder methods, one by one\<close>

text \<open>
  For every appending method of the builder: what the returned builder reads, that its other
  fields are those of the receiver, and that the heap of the other element type is untouched.
  For the fixed-shape requests: the command after each setter has been called twice.
\<close>

lemma add_searchOpt_appends:
  shows "slice_elems (cmds (snd (add_searchOpt g m query c))) (searchOpts (fst (add_searchOpt g m query c)))
         = slice_elems (cmds m) (searchOpts query) @ [c]"
    and "fst (add_searchOpt g m query c)
         = query\<lparr>searchOpts := searchOpts (fst (add_searchOpt g m query c))\<rparr>"
    and "strs (snd (add_searchOpt g m query c)) = strs m"
proof -
  obtain q' m' where r: "add_searchOpt g m query c = (q', m')"
    by (cases "add_searchOpt g m query c")
  show "slice_elems (cmds (snd (add_searchOpt g m query c))) (searchOpts (fst (add_searchOpt g m query c)))
         = slice_elems (cmds m) (searchOpts query) @ [c]"
    by (rule add_searchOpt_reads)
  from add_searchOpt_effect(1) [OF r]
  show "fst (add_searchOpt g m query c)
         = query\<lparr>searchOpts := searchOpts (fst (add_searchOpt g m query c))\<rparr>"
    by (simp add: r)
  from add_searchOpt_effect(2) [OF r] show "strs (snd (add_searchOpt g m query c)) = strs m"
    by (simp add: r)
qed

lemma Actions_appends:
  shows "slice_elems (strs (snd (Actions g m query acts))) (detectActions (fst (Actions g m query acts)))
         = slice_elems (strs m) (detectActions query) @ acts"
    and "fst (Actions g m query acts)
         = query\<lparr>detectActions := detectActions (fst (Actions g m query acts))\<rparr>"
    and "cmds (snd (Actions g m query acts)) = cmds m"
proof -
  obtain q' m' where r: "Actions g m query acts = (q', m')"
    by (cases "Actions g m query acts")
  show "slice_elems (strs (snd (Actions g m query acts))) (detectActions (fst (Actions g m query acts)))
         = slice_elems (strs m) (detectActions query) @ acts"
    by (rule Actions_reads)
  from Actions_effect(2) [OF r]
  show "fst (Actions g m query acts)
         = query\<lparr>detectActions := detectActions (fst (Actions g m query acts))\<rparr>"
    by (simp add: r)
  from Actions_effect(3) [OF r] show "cmds (snd (Actions g m query acts)) = cmds m"
    by (simp add: r)
qed

lemma Commands_appends:
  shows "slice_elems (strs (snd (Commands g m query tags))) (notifyCommands (fst (Commands g m query tags)))
         = slice_elems (strs m) (notifyCommands query) @ tags"
    and "fst (Commands g m query tags)
         = query\<lparr>notifyCommands := notifyCommands (fst (Commands g m query tags))\<rparr>"
    and "cmds (snd (Commands g m query tags)) = cmds m"
proof -
  obtain q' m' where r: "Commands g m query tags = (q', m')"
    by (cases "Commands g m query tags")
  show "slice_elems (strs (snd (Commands g m query tags))) (notifyCommands (fst (Commands g m query tags)))
         = slice_elems (strs m) (notifyCommands query) @ tags"
    by (rule Commands_reads)
  from Commands_effect(2) [OF r]
  show "fst (Commands g m query tags)
         = query\<lparr>notifyCommands := notifyCommands (fst (Commands g m query tags))\<rparr>"
    by (simp add: r)
  from Commands_effect(3) [OF r] show "cmds (snd (Commands g m query tags)) = cmds m"
    by (simp add: r)
qed

lemma Actions_twice:
  "slice_elems
     (strs (snd (Actions g (snd (Actions g m query a1)) (fst (Actions g m query a1)) a2)))
     (detectActions (fst (Actions g (snd (Actions g m query a1)) (fst (Actions g m query a1)) a2)))
   = slice_elems (strs m) (detectActions query) @ a1 @ a2"
  by (simp add: Actions_reads)

lemma Commands_twice:
  "slice_elems
     (strs (snd (Commands g (snd (Commands g m query t1)) (fst (Commands g m query t1)) t2)))
     (notifyCommands (fst (Commands g (snd (Commands g m query t1)) (fst (Commands g m query t1)) t2)))
   = slice_elems (strs m) (notifyCommands query) @ t1 @ t2"
  by (simp add: Commands_reads)

lemma Request_setters_command:
  "Request_GeofenceCommand
     (Request_Format (Request_Actions (Request_WithOptions
        (Request_Format (Request_Actions (Request_WithOptions req o1) a1) f1) o2) a2) f2)
   = \<lparr>Name = Cmd req,
      Args = Request.Key req # fragments o2
        @ [''FENCE'']
        @ (if a2 = [] then [] else [''DETECT'', joined_with_commas a2])
        @ (if Name f2 = [] then [] else Name f2 # Args f2)
        @ Name (Area req) # Args (Area req)\<rparr>"
  by (rule Command.equality)
    (simp_all add: Request_name_eq Request_args_eq Request_WithOptions_def Request_Actions_def
      Request_Format_def)

lemma RoamRequest_setters_command:
  "RoamRequest_GeofenceCommand
     (RoamRequest_Format (RoamRequest_Actions (RoamRequest_WithOptions
        (RoamRequest_Format (RoamRequest_Actions (RoamRequest_WithOptions rreq o1) a1) f1) o2) a2) f2)
   = \<lparr>Name = ''NEARBY'',
      Args = RoamRequest.Key rreq # fragments o2
        @ [''FENCE'']
        @ (if a2 = [] then [] else [''DETECT'', joined_with_commas a2])
        @ (if Name f2 = [] then [] else Name f2 # Args f2)
        @ [''ROAM'', Target rreq, Pattern rreq, Itoa (Meters rreq)]\<rparr>"
  by (rule Command.equality)
    (simp_all add: RoamRequest_name_eq RoamRequest_args_eq RoamRequest_WithOptions_def
      RoamRequest_Actions_def RoamRequest_Format_def)

lemma Asc_appends:
  shows "slice_elems (cmds (snd (Asc g m query))) (searchOpts (fst (Asc g m query)))
         = slice_elems (cmds m) (searchOpts query) @ [\<lparr>Name = ''ASC'', Args = []\<rparr>]"
    and "fst (Asc g m query) = query\<lparr>searchOpts := searchOpts (fst (Asc g m query))\<rparr>"
    and "strs (snd (Asc g m query)) = strs m"
  unfolding Asc_def NewCommand_def by (rule add_searchOpt_appends)+

lemma Desc_appends:
  shows "slice_elems (cmds (snd (Desc g m query))) (searchOpts (fst (Desc g m query)))
         = slice_elems (cmds m) (searchOpts query) @ [\<lparr>Name = ''DESC'', Args = []\<rparr>]"
    and "fst (Desc g m query) = query\<lparr>searchOpts := searchOpts (fst (Desc g m query))\<rparr>"
    and "strs (snd (Desc g m query)) = strs m"
  unfolding Desc_def NewCommand_def by (rule add_searchOpt_appends)+

lemma NoFields_appends:
  shows "slice_elems (cmds (snd (NoFields g m query))) (searchOpts (fst (NoFields g m query)))
         = slice_elems (cmds m) (searchOpts query) @ [\<lparr>Name = ''NOFIELDS'', Args = []\<rparr>]"
    and "fst (NoFields g m query) = query\<lparr>searchOpts := searchOpts (fst (NoFields g m query))\<rparr>"
    and "strs (snd (NoFields g m query)) = strs m"
  unfolding NoFields_def NewCommand_def by (rule add_searchOpt_appends)+

lemma Clip_appends:
  shows "slice_elems (cmds (snd (Clip g m query))) (searchOpts (fst (Clip g m query)))
         = slice_elems (cmds m) (searchOpts query) @ [\<lparr>Name = ''CLIP'', Args = []\<rparr>]"
    and "fst (Clip g m query) = query\<lparr>searchOpts := searchOpts (fst (Clip g m query))\<rparr>"
    and "strs (snd (Clip g m query)) = strs m"
  unfolding Clip_def NewCommand_def by (rule add_searchOpt_appends)+

lemma Distance_appends:
  shows "slice_elems (cmds (snd (Distance g m query))) (searchOpts (fst (Distance g m query)))
         = slice_elems (cmds m) (searchOpts query) @ [\<lparr>Name = ''DISTANCE'', Args = []\<rparr>]"
    and "fst (Distance g m query) = query\<lparr>searchOpts := searchOpts (fst (Distance g m query))\<rparr>"
    and "strs (snd (Distance g m query)) = strs m"
  unfolding Distance_def NewCommand_def by (rule add_searchOpt_appends)+

lemma Cursor_appends:
  shows "slice_elems (cmds (snd (Cursor g m query n))) (searchOpts (fst (Cursor g m query n)))
         = slice_elems (cmds m) (searchOpts query) @ [\<lparr>Name = ''CURSOR'', Args = [Itoa n]\<rparr>]"
    and "fst (Cursor g m query n) = query\<lparr>searchOpts := searchOpts (fst (Cursor g m query n))\<rparr>"
    and "strs (snd (Cursor g m query n)) = strs m"
  unfolding Cursor_def NewCommand_def by (rule add_searchOpt_appends)+

lemma Limit_appends:
  shows "slice_elems (cmds (snd (Limit g m query n))) (searchOpts (fst (Limit g m query n)))
         = slice_elems (cmds m) (searchOpts query) @ [\<lparr>Name = ''LIMIT'', Args = [Itoa n]\<rparr>]"
    and "fst (Limit g m query n) = query\<lparr>searchOpts := searchOpts (fst (Limit g m query n))\<rparr>"
    and "strs (snd (Limit g m query n)) = strs m"
  unfolding Limit_def NewCommand_def by (rule add_searchOpt_appends)+

lemma Sparse_appends:
  shows "slice_elems (cmds (snd (Sparse g m query n))) (searchOpts (fst (Sparse g m query n)))
         = slice_elems (cmds m) (searchOpts query) @ [\<lparr>Name = ''SPARSE'', Args = [Itoa n]\<rparr>]"
    and "fst (Sparse g m query n) = query\<lparr>searchOpts := searchOpts (fst (Sparse g m query n))\<rparr>"
    and "strs (snd (Sparse g m query n)) = strs m"
  unfolding Sparse_def NewCommand_def by (rule add_searchOpt_appends)+

lemma Where_appends:
  shows "slice_elems (cmds (snd (Where fs g m query field lo hi)))
           (searchOpts (fst (Where fs g m query field lo hi)))
         = slice_elems (cmds m) (searchOpts query)
           @ [\<lparr>Name = ''WHERE'', Args = [field, fs lo, fs hi]\<rparr>]"
    and "fst (Where fs g m query field lo hi)
         = query\<lparr>searchOpts := searchOpts (fst (Where fs g m query field lo hi))\<rparr>"
    and "strs (snd (Where fs g m query field lo hi)) = strs m"
  unfolding Where_def NewCommand_def by (rule add_searchOpt_appends)+

lemma Wherein_appends:
  shows "slice_elems (cmds (snd (Wherein fs g m query field vals)))
           (searchOpts (fst (Wherein fs g m query field vals)))
         = slice_elems (cmds m) (searchOpts query)
           @ [\<lparr>Name = ''WHEREIN'', Args = Itoa (int (length vals)) # map fs vals\<rparr>]"
    and "fst (Wherein fs g m query field vals)
         = query\<lparr>searchOpts := searchOpts (fst (Wherein fs g m query field vals))\<rparr>"
    and "strs (snd (Wherein fs g m query field vals)) = strs m"
  unfolding Wherein_eq NewCommand_def by (rule add_searchOpt_appends)+

lemma Match_appends:
  shows "slice_elems (cmds (snd (Match g m query pat))) (searchOpts (fst (Match g m query pat)))
         = slice_elems (cmds m) (searchOpts query) @ [\<lparr>Name = ''MATCH'', Args = [pat]\<rparr>]"
    and "fst (Match g m query pat) = query\<lparr>searchOpts := searchOpts (fst (Match g m query pat))\<rparr>"
    and "strs (snd (Match g m query pat)) = strs m"
  unfolding Match_def NewCommand_def by (rule add_searchOpt_appends)+

section \<open>Decoding a stream\<close>

lemma decoded_prefix_all_ok:
  "map decode events = map Inr vs \<Longrightarrow> decoded_prefix decode events = vs"
  by (induction events arbitrary: vs) auto

lemma first_error_all_ok:
  "map decode events = map Inr vs \<Longrightarrow> first_error decode events = None"
  by (induction events arbitrary: vs) auto

lemma decoded_prefix_bad:
  "map decode pre = map Inr vs \<Longrightarrow> decode bad = Inl err \<Longrightarrow>
   decoded_prefix decode (pre @ bad # post) = vs"
  by (induction pre arbitrary: vs) auto

lemma first_error_bad:
  "map decode pre = map Inr vs \<Longrightarrow> decode bad = Inl err \<Longrightarrow>
   first_error decode (pre @ bad # post) = Some err"
  by (induction pre arbitrary: vs) auto

lemma after_first_error_bad:
  "map decode pre = map Inr vs \<Longrightarrow> decode bad = Inl err \<Longrightarrow>
   after_first_error decode (pre @ bad # post) = post"
  by (induction pre arbitrary: vs) auto

lemma decoded_prefix_is_image:
  "\<exists>k. map decode (take k events) = map Inr (decoded_prefix decode events)"
proof (induction events)
  case Nil
  show ?case by simp
next
  case (Cons event events)
  then obtain k where k: "map decode (take k events) = map Inr (decoded_prefix decode events)" ..
  show ?case
  proof (cases "decode event")
    case (Inl err)
    then have "map decode (take 0 (event # events)) = map Inr (decoded_prefix decode (event # events))"
      by simp
    then show ?thesis ..
  next
    case (Inr resp)
    with k have "map decode (take (Suc k) (event # events))
                 = map Inr (decoded_prefix decode (event # events))"
      by simp
    then show ?thesis ..
  qed
qed

lemma image_of_prefix_take:
  assumes "map decode (take k events) = map Inr vs"
  shows "\<exists>j. map decode (take j events) = map Inr (take n vs)"
proof -
  have "map decode (take (min n k) events) = take n (map decode (take k events))"
    by (simp add: take_map [symmetric] min.commute)
  also have "\<dots> = map Inr (take n vs)"
    by (simp add: assms take_map)
  finally show ?thesis ..
qed

lemma decoded_prefix_maximal:
  "\<exists>k\<le>length events.
     map decode (take k events) = map Inr (decoded_prefix decode events) \<and>
     (k < length events \<longrightarrow> (\<exists>err. decode (events ! k) = Inl err))"
proof (induction events)
  case Nil
  show ?case by simp
next
  case (Cons event events)
  then obtain k where k: "k \<le> length events"
      "map decode (take k events) = map Inr (decoded_prefix decode events)"
      "k < length events \<longrightarrow> (\<exists>err. decode (events ! k) = Inl err)"
    by blast
  show ?case
  proof (cases "decode event")
    case (Inl err)
    then show ?thesis
      by (intro exI [of _ 0]) simp
  next
    case (Inr resp)
    with k show ?thesis
      by (intro exI [of _ "Suc k"]) simp
  qed
qed

section \<open>Callback mode\<close>

lemma Do_loop_eq:
  "Do_loop decode handler events s =
     (map_option UnmarshalError (first_error decode events),
      fold handler (decoded_prefix decode events) s)"
  by (induction events arbitrary: s) (simp_all split: sum.splits)

lemma fold_record_calls: "fold (\<lambda>resp calls. calls @ [resp]) vs acc = acc @ vs"
  by (induction vs arbitrary: acc) simp_all

lemma Do_started:
  "ExecuteStream (client query) (Name (toCmd m query)) (Args (toCmd m query)) = Inr events \<Longrightarrow>
   Do m query decode handler s =
     (map_option UnmarshalError (first_error decode events),
      fold handler (decoded_prefix decode events) s)"
  by (simp add: Do_def Let_def Do_loop_eq)

lemma Do_start_error:
  "ExecuteStream (client query) (Name (toCmd m query)) (Args (toCmd m query)) = Inl err \<Longrightarrow>
   Do m query decode handler s = (Some (CommandError (toCmd m query) err), s)"
  by (simp add: Do_def Let_def)

section \<open>Queue mode: invariant and progress\<close>

lemma fence_inv_start: "fence_inv decode events (fence_start events)"
  by (simp add: fence_inv_def fence_start_def pending_def chan_capacity_def)

lemma fence_inv_task_step:
  "fence_inv decode events st \<Longrightarrow> fence_inv decode events (task_step decode st)"
  unfolding fence_inv_def task_step_def pending_def
  by (auto split: task_state.splits list.splits sum.splits if_splits)

lemma fence_inv_reader_step:
  "fence_inv decode events st \<Longrightarrow> fence_inv decode events (reader_step st)"
  unfolding fence_inv_def reader_step_def pending_def
  by (auto split: task_state.splits list.splits sum.splits if_splits)

lemma fence_inv_step:
  "fence_inv decode events st \<Longrightarrow> fence_inv decode events (step decode t st)"
  by (cases t) (simp_all add: fence_inv_task_step fence_inv_reader_step)

lemma fence_inv_run:
  "fence_inv decode events st \<Longrightarrow> fence_inv decode events (run decode sched st)"
  unfolding run_def
  by (induction sched arbitrary: st) (simp_all add: fence_inv_step)

lemma fence_inv_reachable: "fence_inv decode events (run decode sched (fence_start events))"
  by (rule fence_inv_run [OF fence_inv_start])

lemma task_step_work:
  "task_step decode st \<noteq> st \<Longrightarrow> work_left (task_step decode st) < work_left st"
  unfolding task_step_def work_left_def
  by (auto split: task_state.splits list.splits sum.splits if_splits)

lemma reader_step_work:
  "reader_step st \<noteq> st \<Longrightarrow> work_left (reader_step st) < work_left st"
  unfolding reader_step_def work_left_def
  by (auto split: list.splits if_splits)

lemma step_work: "step decode t st \<noteq> st \<Longrightarrow> work_left (step decode t st) < work_left st"
  by (cases t) (simp_all add: task_step_work reader_step_work)

lemma some_thread_moves:
  assumes "fence_inv decode events st" and "\<not> saw_close st"
  shows "task_step decode st \<noteq> st \<or> reader_step st \<noteq> st"
proof (cases "buf st")
  case (Cons v vs)
  then have "received (reader_step st) \<noteq> received st"
    by (simp add: reader_step_def)
  then show ?thesis by auto
next
  case Nil
  show ?thesis
  proof (cases "closed st")
    case True
    with Nil assms(2) have "saw_close (reader_step st) \<noteq> saw_close st"
      by (simp add: reader_step_def)
    then show ?thesis by auto
  next
    case False
    with assms(1) have "task st \<noteq> Exited"
      by (simp add: fence_inv_def)
    with Nil have "task (task_step decode st) \<noteq> task st"
      by (cases "task st")
        (auto simp: task_step_def chan_capacity_def split: list.splits sum.splits)
    then show ?thesis by auto
  qed
qed

lemma closure_reachable:
  "fence_inv decode events st \<Longrightarrow> \<exists>sched. saw_close (run decode sched st)"
proof (induction "work_left st" arbitrary: st rule: less_induct)
  case less
  show ?case
  proof (cases "saw_close st")
    case True
    then have "saw_close (run decode [] st)" by (simp add: run_def)
    then show ?thesis ..
  next
    case False
    with less.prems have "task_step decode st \<noteq> st \<or> reader_step st \<noteq> st"
      by (rule some_thread_moves)
    then obtain t where t: "step decode t st \<noteq> st"
      by (metis step.simps)
    then have "work_left (step decode t st) < work_left st"
      by (rule step_work)
    moreover have "fence_inv decode events (step decode t st)"
      by (rule fence_inv_step [OF less.prems])
    ultimately obtain sched where "saw_close (run decode sched (step decode t st))"
      using less.hyps by blast
    then have "saw_close (run decode (t # sched) st)"
      by (simp add: run_def)
    then show ?thesis ..
  qed
qed

lemma run_append: "run decode (s1 @ s2) st = run decode s2 (run decode s1 st)"
  by (simp add: run_def)

lemma received_is_prefix:
  assumes "fence_inv decode events st"
  shows "received st = take (length (received st)) (decoded_prefix decode events)"
  using assms by (simp add: fence_inv_def)

lemma received_complete:
  assumes "fence_inv decode events st" and "saw_close st"
  shows "received st = decoded_prefix decode events"
  using assms by (auto simp: fence_inv_def pending_def)

lemma step_delivers_at_most_one:
  "received (step decode t st) = received st \<or>
   (\<exists>v. received (step decode t st) = received st @ [v])"
  by (cases t)
    (auto simp: task_step_def reader_step_def split: task_state.splits list.splits sum.splits)

section \<open>The claims\<close>

subsection \<open>C1\<close>

text \<open>
  Claim C1: the fragment that \<open>Wherein(field, values...)\<close> adds is \<open>WHEREIN\<close>, the field name,
  the number of values, then the values in input order.

  The method never uses its parameter \<open>field\<close>: the arguments are built from the count and
  the values alone (the sibling \<open>Where\<close> passes \<open>field\<close> first). For every field and every
  list of values the fragment added is \<open>WHEREIN\<close>, the count, the values; on a new builder
  \<open>Wherein("field", a, b, c)\<close> assembles to \<open>fleet WHEREIN 3 a b c FENCE ...\<close>, with no
  field name after \<open>WHEREIN\<close>.
\<close>

theorem Wherein_drops_field:
  "slice_elems (cmds (snd (Wherein fs g m query field vals)))
     (searchOpts (fst (Wherein fs g m query field vals)))
   = slice_elems (cmds m) (searchOpts query)
     @ [\<lparr>Name = ''WHEREIN'', Args = Itoa (int (length vals)) # map fs vals\<rparr>] \<and>
   Args (toCmd (snd (Wherein fs double_growth empty_memory
                       (newGeofenceQueryBuilder cl ''WITHIN'' ''fleet'' ar) ''field'' [a, b, c]))
               (fst (Wherein fs double_growth empty_memory
                       (newGeofenceQueryBuilder cl ''WITHIN'' ''fleet'' ar) ''field'' [a, b, c])))
   = [''fleet'', ''WHEREIN'', ''3'', fs a, fs b, fs c, ''FENCE'', Name ar] @ Args ar"
proof (intro conjI)
  show "slice_elems (cmds (snd (Wherein fs g m query field vals)))
     (searchOpts (fst (Wherein fs g m query field vals)))
   = slice_elems (cmds m) (searchOpts query)
     @ [\<lparr>Name = ''WHEREIN'', Args = Itoa (int (length vals)) # map fs vals\<rparr>]"
    by (simp add: Wherein_eq NewCommand_def add_searchOpt_reads)
  show "Args (toCmd (snd (Wherein fs double_growth empty_memory
                       (newGeofenceQueryBuilder cl ''WITHIN'' ''fleet'' ar) ''field'' [a, b, c]))
               (fst (Wherein fs double_growth empty_memory
                       (newGeofenceQueryBuilder cl ''WITHIN'' ''fleet'' ar) ''field'' [a, b, c])))
   = [''fleet'', ''WHEREIN'', ''3'', fs a, fs b, fs c, ''FENCE'', Name ar] @ Args ar"
    by (simp add: Wherein_eq add_searchOpt_def append_slice_def newGeofenceQueryBuilder_def
        nil_slice_def empty_memory_def double_growth_def toCmd_area_eq args_eq slice_elems_def
        store_at_def fragments_def NewCommand_def Itoa_def digits.simps digit_char_def Let_def
        zeroCommand_def)
qed

subsection \<open>C2\<close>

text \<open>
  Claim C2: in queue mode, when the stream yields a payload that fails to decode, the
  background task stops and closes the channel, and no error value goes through the channel;
  for the stream of one malformed payload followed by its end, the reader gets no event and
  then sees the channel closed.

  The stream is \<open>pre @ bad # post\<close>, where the payloads of \<open>pre\<close> decode to \<open>vs\<close> and \<open>bad\<close>
  fails with \<open>err\<close>. Under every schedule of the task and the reader: what the reader has
  received is a prefix of \<open>vs\<close>; the channel is closed exactly when the task has exited; once
  the task has exited the error is in the log only and the payloads \<open>post\<close> are left unread;
  a reader that has seen the closure has received exactly \<open>vs\<close>; and every schedule can be
  continued so that the reader sees the closure.
\<close>

theorem Fence_swallows_decode_error:
  assumes "map decode pre = map Inr vs" and "decode bad = Inl err"
    and "ExecuteStream cl (Name (GeofenceCommand req)) (Args (GeofenceCommand req))
         = Inr (pre @ bad # post)"
  shows "Fence cl req = Inr (fence_start (pre @ bad # post)) \<and>
     (\<exists>n. received (run decode sched (fence_start (pre @ bad # post))) = take n vs) \<and>
     (closed (run decode sched (fence_start (pre @ bad # post)))
        \<longleftrightarrow> task (run decode sched (fence_start (pre @ bad # post))) = Exited) \<and>
     (task (run decode sched (fence_start (pre @ bad # post))) = Exited \<longrightarrow>
        logged (run decode sched (fence_start (pre @ bad # post))) = [err] \<and>
        stream (run decode sched (fence_start (pre @ bad # post))) = post) \<and>
     (saw_close (run decode sched (fence_start (pre @ bad # post))) \<longrightarrow>
        closed (run decode sched (fence_start (pre @ bad # post))) \<and>
        buf (run decode sched (fence_start (pre @ bad # post))) = [] \<and>
        received (run decode sched (fence_start (pre @ bad # post))) = vs) \<and>
     (\<exists>more. saw_close (run decode (sched @ more) (fence_start (pre @ bad # post)))) \<and>
     received (run decode sched (fence_start [bad])) = [] \<and>
     saw_close (run decode [Task, Reader] (fence_start [bad]))"
proof (intro conjI)
  let ?events = "pre @ bad # post"
  let ?st = "run decode sched (fence_start ?events)"
  have inv: "fence_inv decode ?events ?st"
    by (rule fence_inv_reachable)
  have dp: "decoded_prefix decode ?events = vs"
    by (rule decoded_prefix_bad [OF assms(1,2)])
  have fe: "first_error decode ?events = Some err"
    by (rule first_error_bad [OF assms(1,2)])
  have af: "after_first_error decode ?events = post"
    by (rule after_first_error_bad [OF assms(1,2)])
  show "Fence cl req = Inr (fence_start ?events)"
    by (simp add: Fence_def Let_def assms(3))
  have "received ?st = take (length (received ?st)) vs"
    using received_is_prefix [OF inv] by (simp add: dp)
  then show "\<exists>n. received ?st = take n vs" ..
  show "closed ?st \<longleftrightarrow> task ?st = Exited"
    using inv by (simp add: fence_inv_def)
  show "task ?st = Exited \<longrightarrow> logged ?st = [err] \<and> stream ?st = post"
    using inv by (auto simp: fence_inv_def fe af)
  show "saw_close ?st \<longrightarrow> closed ?st \<and> buf ?st = [] \<and> received ?st = vs"
    using inv received_complete [OF inv] by (auto simp: fence_inv_def dp)
  from closure_reachable [OF inv] obtain more where "saw_close (run decode more ?st)" ..
  then have "saw_close (run decode (sched @ more) (fence_start ?events))"
    by (simp add: run_append)
  then show "\<exists>more. saw_close (run decode (sched @ more) (fence_start ?events))" ..
  have "fence_inv decode [bad] (run decode sched (fence_start [bad]))"
    by (rule fence_inv_reachable)
  from received_is_prefix [OF this] show "received (run decode sched (fence_start [bad])) = []"
    by (simp add: assms(2))
  show "saw_close (run decode [Task, Reader] (fence_start [bad]))"
    by (simp add: run_def task_step_def reader_step_def fence_start_def assms(2))
qed

theorem Fence_swallows_decode_error_witness:
  "map example_decode [] = map Inr [] \<and>
   example_decode ''{'' = Inl ''unexpected end of JSON input'' \<and>
   ExecuteStream (stream_client [''{''])
     (Name (GeofenceCommand (IsRequest (GeofenceWithin ''fleet'' example_area))))
     (Args (GeofenceCommand (IsRequest (GeofenceWithin ''fleet'' example_area))))
     = Inr ([] @ ''{'' # []) \<and>
   Fence (stream_client [''{'']) (IsRequest (GeofenceWithin ''fleet'' example_area))
     = Inr (fence_start [''{'']) \<and>
   received (run example_decode [Task, Reader] (fence_start [''{''])) = [] \<and>
   saw_close (run example_decode [Task, Reader] (fence_start [''{''])) \<and>
   closed (run example_decode [Task, Reader] (fence_start [''{''])) \<and>
   task (run example_decode [Task, Reader] (fence_start [''{''])) = Exited \<and>
   logged (run example_decode [Task, Reader] (fence_start [''{'']))
     = [''unexpected end of JSON input'']"
  using Fence_swallows_decode_error
    [where decode = example_decode and pre = "[]" and vs = "[]" and bad = "''{''"
       and err = "''unexpected end of JSON input''" and cl = "stream_client [''{'']"
       and req = "IsRequest (GeofenceWithin ''fleet'' example_area)" and post = "[]"
       and sched = "[Task, Reader]"]
  by (auto simp: example_decode_def stream_client_def run_def task_step_def reader_step_def
      fence_start_def)

subsection \<open>C3\<close>

text \<open>
  Claim C3: in callback mode, a payload that fails to decode makes \<open>Do\<close> return a wrapped,
  non-nil error at once; the handler is not called for that payload and the rest of the
  stream is abandoned. When every payload decodes, \<open>Do\<close> returns nil.

  The handler acts on the caller's state; with the handler that appends its argument to a
  list, the final state is the list of the handler's calls.
\<close>

theorem Do_propagates_decode_error:
  assumes "ExecuteStream (client query) (Name (toCmd m query)) (Args (toCmd m query)) = Inr events"
  shows "(map decode pre = map Inr vs \<and> decode bad = Inl err \<and> events = pre @ bad # post \<longrightarrow>
           Do m query decode handler s = (Some (UnmarshalError err), fold handler vs s) \<and>
           Do m query decode (\<lambda>resp calls. calls @ [resp]) [] = (Some (UnmarshalError err), vs)) \<and>
         (map decode events = map Inr vs \<longrightarrow>
           Do m query decode handler s = (None, fold handler vs s) \<and>
           Do m query decode (\<lambda>resp calls. calls @ [resp]) [] = (None, vs))"
  by (auto simp: Do_started [OF assms] decoded_prefix_bad first_error_bad decoded_prefix_all_ok
      first_error_all_ok fold_record_calls)

theorem Do_propagates_decode_error_witness:
  "ExecuteStream (client (newGeofenceQueryBuilder (stream_client [''ab'', ''{'', ''abc''])
       ''WITHIN'' ''fleet'' example_area)) 
     (Name (toCmd empty_memory (newGeofenceQueryBuilder (stream_client [''ab'', ''{'', ''abc''])
       ''WITHIN'' ''fleet'' example_area)))
     (Args (toCmd empty_memory (newGeofenceQueryBuilder (stream_client [''ab'', ''{'', ''abc''])
       ''WITHIN'' ''fleet'' example_area)))
     = Inr [''ab'', ''{'', ''abc''] \<and>
   map example_decode [''ab''] = map Inr [2] \<and>
   example_decode ''{'' = Inl ''unexpected end of JSON input'' \<and>
   Do empty_memory
     (newGeofenceQueryBuilder (stream_client [''ab'', ''{'', ''abc'']) ''WITHIN'' ''fleet'' example_area)
     example_decode (\<lambda>resp calls. calls @ [resp]) []
     = (Some (UnmarshalError ''unexpected end of JSON input''), [2]) \<and>
   ExecuteStream (client (newGeofenceQueryBuilder (stream_client [''ab'', ''abc''])
       ''WITHIN'' ''fleet'' example_area)) 
     (Name (toCmd empty_memory (newGeofenceQueryBuilder (stream_client [''ab'', ''abc''])
       ''WITHIN'' ''fleet'' example_area)))
     (Args (toCmd empty_memory (newGeofenceQueryBuilder (stream_client [''ab'', ''abc''])
       ''WITHIN'' ''fleet'' example_area)))
     = Inr [''ab'', ''abc''] \<and>
   map example_decode [''ab'', ''abc''] = map Inr [2, 3] \<and>
   Do empty_memory
     (newGeofenceQueryBuilder (stream_client [''ab'', ''abc'']) ''WITHIN'' ''fleet'' example_area)
     example_decode (\<lambda>resp calls. calls @ [resp]) []
     = (None, [2, 3])"
  using Do_propagates_decode_error
    [where query = "newGeofenceQueryBuilder (stream_client [''ab'', ''{'', ''abc''])
                      ''WITHIN'' ''fleet'' example_area"
       and m = empty_memory and events = "[''ab'', ''{'', ''abc'']" and decode = example_decode
       and pre = "[''ab'']" and vs = "[2]" and bad = "''{''" and post = "[''abc'']"
       and err = "''unexpected end of JSON input''"
       and handler = "\<lambda>resp calls. calls @ [resp]" and s = "[]"]
    Do_propagates_decode_error
    [where query = "newGeofenceQueryBuilder (stream_client [''ab'', ''abc''])
                      ''WITHIN'' ''fleet'' example_area"
       and m = empty_memory and events = "[''ab'', ''abc'']" and decode = example_decode
       and vs = "[2, 3]" and handler = "\<lambda>resp calls. calls @ [resp]" and s = "[]"]
  by (simp add: example_decode_def stream_client_def newGeofenceQueryBuilder_def)

subsection \<open>C4\<close>

text \<open>
  Claim C4: the command of every \<open>RoamRequest\<close>, and of every builder in roam mode, has the
  name \<open>NEARBY\<close>, and its last four arguments are \<open>ROAM\<close>, the target, the pattern and the
  decimal rendering of the meters, in this order.

  The rendering is \<open>Itoa\<close>; that it is the decimal numeral of the number is lemma
  \<open>Atoi_Itoa\<close>.
\<close>

theorem roam_command_name_and_tail:
  "Name (RoamRequest_GeofenceCommand req) = ''NEARBY'' \<and>
   drop (length (Args (RoamRequest_GeofenceCommand req)) - 4) (Args (RoamRequest_GeofenceCommand req))
     = [''ROAM'', Target req, Pattern req, Itoa (Meters req)] \<and>
   (isRoamQuery query \<longrightarrow>
      Name (toCmd m query) = ''NEARBY'' \<and>
      drop (length (Args (toCmd m query)) - 4) (Args (toCmd m query))
        = [''ROAM'', target query, pattern query, Itoa (meters query)])"
  by (simp add: RoamRequest_name_eq RoamRequest_args_eq toCmd_name_eq toCmd_args_eq)

theorem roam_command_name_and_tail_witness:
  "isRoamQuery (newGeofenceRoamQueryBuilder (stream_client []) ''fleet'' ''truck'' ''*'' 500) \<and>
   Name (toCmd empty_memory (newGeofenceRoamQueryBuilder (stream_client []) ''fleet'' ''truck'' ''*'' 500))
     = ''NEARBY'' \<and>
   drop (length (Args (toCmd empty_memory
                  (newGeofenceRoamQueryBuilder (stream_client []) ''fleet'' ''truck'' ''*'' 500))) - 4)
     (Args (toCmd empty_memory (newGeofenceRoamQueryBuilder (stream_client []) ''fleet'' ''truck'' ''*'' 500)))
     = [''ROAM'', ''truck'', ''*'', ''500''] \<and>
   Name (RoamRequest_GeofenceCommand (GeofenceRoam ''fleet'' ''truck'' ''*'' 500)) = ''NEARBY''"
  using roam_command_name_and_tail
    [of "GeofenceRoam ''fleet'' ''truck'' ''*'' 500"
        "newGeofenceRoamQueryBuilder (stream_client []) ''fleet'' ''truck'' ''*'' 500" empty_memory]
  by (simp add: newGeofenceRoamQueryBuilder_def Itoa_def digits.simps digit_char_def)

subsection \<open>C5\<close>

text \<open>
  Claim C5: the command of a fixed-area \<open>Request\<close> has the stored \<open>Cmd\<close> as its name, and its
  arguments are: the key; each option's name and arguments, in the given order; \<open>FENCE\<close>;
  \<open>DETECT\<close> and the joined actions, only when there are actions; the format's name and
  arguments, only when the name is not empty; the area's name and arguments. Without options,
  format and actions, \<open>GeofenceWithin("fleet", area)\<close> gives the name \<open>WITHIN\<close> and the
  arguments \<open>fleet\<close>, \<open>FENCE\<close>, the area's name, the area's arguments.
\<close>

theorem Request_command_shape:
  "Name (Request_GeofenceCommand req) = Cmd req \<and>
   Args (Request_GeofenceCommand req) =
     Request.Key req # fragments (Request.Options req)
     @ [''FENCE'']
     @ (if Request.DetectActions req = [] then []
        else [''DETECT'', joined_with_commas (Request.DetectActions req)])
     @ (if Name (Request.OutputFormat req) = [] then []
        else Name (Request.OutputFormat req) # Args (Request.OutputFormat req))
     @ Name (Area req) # Args (Area req) \<and>
   Request_GeofenceCommand (GeofenceWithin ''fleet'' ar) =
     \<lparr>Name = ''WITHIN'', Args = [''fleet'', ''FENCE'', Name ar] @ Args ar\<rparr>"
proof (intro conjI)
  show "Name (Request_GeofenceCommand req) = Cmd req"
    by (rule Request_name_eq)
  show "Args (Request_GeofenceCommand req) =
     Request.Key req # fragments (Request.Options req)
     @ [''FENCE'']
     @ (if Request.DetectActions req = [] then []
        else [''DETECT'', joined_with_commas (Request.DetectActions req)])
     @ (if Name (Request.OutputFormat req) = [] then []
        else Name (Request.OutputFormat req) # Args (Request.OutputFormat req))
     @ Name (Area req) # Args (Area req)"
    by (rule Request_args_eq)
  show "Request_GeofenceCommand (GeofenceWithin ''fleet'' ar) =
     \<lparr>Name = ''WITHIN'', Args = [''fleet'', ''FENCE'', Name ar] @ Args ar\<rparr>"
    by (rule Command.equality)
      (simp_all add: Request_name_eq Request_args_eq GeofenceWithin_def fragments_def
        zeroCommand_def)
qed

theorem Request_command_shape_witness:
  "Request_GeofenceCommand
     (Request_Format
        (Request_Actions
           (Request_WithOptions (GeofenceIntersects ''fleet'' example_area)
              [NewCommand ''LIMIT'' [''5''], NewCommand ''NOFIELDS'' []])
           [''enter'', ''exit''])
        (NewCommand ''HASHES'' [''7'']))
   = \<lparr>Name = ''INTERSECTS'',
      Args = [''fleet'', ''LIMIT'', ''5'', ''NOFIELDS'', ''FENCE'', ''DETECT'', ''enter,exit'',
              ''HASHES'', ''7'', ''GET'', ''zones'', ''a'']\<rparr>"
  using Request_command_shape
    [where req = "Request_Format
        (Request_Actions
           (Request_WithOptions (GeofenceIntersects ''fleet'' example_area)
              [NewCommand ''LIMIT'' [''5''], NewCommand ''NOFIELDS'' []])
           [''enter'', ''exit''])
        (NewCommand ''HASHES'' [''7''])"]
  by (intro Command.equality)
    (simp_all add: Request_Format_def Request_Actions_def Request_WithOptions_def
      GeofenceIntersects_def example_area_def NewCommand_def fragments_def joined_with_commas_def)

subsection \<open>C6\<close>

text \<open>
  Claim C6: for a non-empty list of detect actions, the argument after \<open>DETECT\<close> is the
  actions joined with commas in input order, neither sorted nor deduplicated, in the commands
  of \<open>Request\<close>, of \<open>RoamRequest\<close> and of the builder alike.

  Each of the three argument lists is given in full, so the place of the token is fixed: it
  follows \<open>FENCE\<close> and \<open>DETECT\<close>, which follow the key and the options. The token is the
  first action, then a comma and the next action for each further one. When no action
  contains a comma, cutting the token at its commas gives the list back, in its order and
  with its duplicates (lemma \<open>split_joined_with_commas\<close>).
\<close>

theorem detect_token_is_ordered_join:
  "(Request.DetectActions req \<noteq> [] \<longrightarrow>
      Args (Request_GeofenceCommand req) =
        Request.Key req # fragments (Request.Options req)
        @ [''FENCE'', ''DETECT'', joined_with_commas (Request.DetectActions req)]
        @ (if Name (Request.OutputFormat req) = [] then []
           else Name (Request.OutputFormat req) # Args (Request.OutputFormat req))
        @ Name (Area req) # Args (Area req)) \<and>
   (RoamRequest.DetectActions rreq \<noteq> [] \<longrightarrow>
      Args (RoamRequest_GeofenceCommand rreq) =
        RoamRequest.Key rreq # fragments (RoamRequest.Options rreq)
        @ [''FENCE'', ''DETECT'', joined_with_commas (RoamRequest.DetectActions rreq)]
        @ (if Name (RoamRequest.OutputFormat rreq) = [] then []
           else Name (RoamRequest.OutputFormat rreq) # Args (RoamRequest.OutputFormat rreq))
        @ [''ROAM'', Target rreq, Pattern rreq, Itoa (Meters rreq)]) \<and>
   (slice_elems (strs m) (detectActions query) \<noteq> [] \<longrightarrow>
      Args (toCmd m query) =
        key query # fragments (slice_elems (cmds m) (searchOpts query))
        @ [''FENCE'', ''DETECT'', joined_with_commas (slice_elems (strs m) (detectActions query))]
        @ (if slice_elems (strs m) (notifyCommands query) = [] then []
           else [''COMMANDS'', joined_with_commas (slice_elems (strs m) (notifyCommands query))])
        @ (if Name (outputFormat query) = [] then []
           else Name (outputFormat query) # Args (outputFormat query))
        @ (if isRoamQuery query
           then [''ROAM'', target query, pattern query, Itoa (meters query)]
           else Name (area query) # Args (area query))) \<and>
   joined_with_commas (a # b # rest) = a @ '','' @ joined_with_commas (b # rest) \<and>
   joined_with_commas [a] = a"
  by (simp add: Request_args_eq RoamRequest_args_eq toCmd_args_eq args_eq joined_with_commas_def)

theorem detect_token_is_ordered_join_witness:
  "Request.DetectActions
     (Request_Actions (GeofenceWithin ''fleet'' example_area) [''exit'', ''enter'', ''exit'']) \<noteq> [] \<and>
   Args (Request_GeofenceCommand
     (Request_Actions (GeofenceWithin ''fleet'' example_area) [''exit'', ''enter'', ''exit'']))
     = [''fleet'', ''FENCE'', ''DETECT'', ''exit,enter,exit'', ''GET'', ''zones'', ''a''] \<and>
   RoamRequest.DetectActions
     (RoamRequest_Actions (GeofenceRoam ''fleet'' ''truck'' ''*'' 500) [''exit'', ''enter'', ''exit'']) \<noteq> [] \<and>
   Args (RoamRequest_GeofenceCommand
     (RoamRequest_Actions (GeofenceRoam ''fleet'' ''truck'' ''*'' 500) [''exit'', ''enter'', ''exit'']))
     = [''fleet'', ''FENCE'', ''DETECT'', ''exit,enter,exit'', ''ROAM'', ''truck'', ''*'', ''500''] \<and>
   slice_elems
     (strs (snd (Actions double_growth empty_memory
        (newGeofenceQueryBuilder (stream_client []) ''WITHIN'' ''fleet'' example_area) [''exit'', ''enter'', ''exit''])))
     (detectActions (fst (Actions double_growth empty_memory
        (newGeofenceQueryBuilder (stream_client []) ''WITHIN'' ''fleet'' example_area) [''exit'', ''enter'', ''exit''])))
     \<noteq> [] \<and>
   Args (toCmd
     (snd (Actions double_growth empty_memory
        (newGeofenceQueryBuilder (stream_client []) ''WITHIN'' ''fleet'' example_area) [''exit'', ''enter'', ''exit'']))
     (fst (Actions double_growth empty_memory
        (newGeofenceQueryBuilder (stream_client []) ''WITHIN'' ''fleet'' example_area) [''exit'', ''enter'', ''exit''])))
     = [''fleet'', ''FENCE'', ''DETECT'', ''exit,enter,exit'', ''GET'', ''zones'', ''a'']"
  using detect_token_is_ordered_join
    [of "Request_Actions (GeofenceWithin ''fleet'' example_area) [''exit'', ''enter'', ''exit'']"
        "RoamRequest_Actions (GeofenceRoam ''fleet'' ''truck'' ''*'' 500) [''exit'', ''enter'', ''exit'']"
        "snd (Actions double_growth empty_memory
           (newGeofenceQueryBuilder (stream_client []) ''WITHIN'' ''fleet'' example_area) [''exit'', ''enter'', ''exit''])"
        "fst (Actions double_growth empty_memory
           (newGeofenceQueryBuilder (stream_client []) ''WITHIN'' ''fleet'' example_area) [''exit'', ''enter'', ''exit''])"]
  by (simp add: Request_Actions_def RoamRequest_Actions_def GeofenceWithin_def GeofenceRoam_def
      example_area_def Actions_def append_slice_def newGeofenceQueryBuilder_def
      nil_slice_def empty_memory_def double_growth_def slice_elems_def
      store_at_def fragments_def NewCommand_def joined_with_commas_def
      Itoa_def digits.simps digit_char_def Let_def zeroCommand_def)

subsection \<open>C7\<close>

text \<open>
  Claim C7: when \<open>ExecuteStream\<close> reports a start error, \<open>Fence\<close> returns the error and no
  channel (no task is started), and \<open>Do\<close> returns a wrapped error without reading an event
  or calling the handler.
\<close>

theorem start_error_is_returned:
  "(ExecuteStream cl (Name (GeofenceCommand req)) (Args (GeofenceCommand req)) = Inl err \<longrightarrow>
      Fence cl req = Inl err) \<and>
   (ExecuteStream (client query) (Name (toCmd m query)) (Args (toCmd m query)) = Inl err' \<longrightarrow>
      Do m query decode handler s = (Some (CommandError (toCmd m query) err'), s) \<and>
      Do m query decode (\<lambda>resp calls. calls @ [resp]) [] = (Some (CommandError (toCmd m query) err'), []))"
  by (simp add: Fence_def Let_def Do_start_error)

theorem start_error_is_returned_witness:
  "ExecuteStream failing_client
     (Name (GeofenceCommand (IsRoamRequest (GeofenceRoam ''fleet'' ''truck'' ''*'' 500))))
     (Args (GeofenceCommand (IsRoamRequest (GeofenceRoam ''fleet'' ''truck'' ''*'' 500))))
     = Inl ''connection refused'' \<and>
   (Fence failing_client (IsRoamRequest (GeofenceRoam ''fleet'' ''truck'' ''*'' 500))
      :: string + (string, nat, string) fence_state) = Inl ''connection refused'' \<and>
   ExecuteStream (client (newGeofenceQueryBuilder failing_client ''WITHIN'' ''fleet'' example_area))
     (Name (toCmd empty_memory (newGeofenceQueryBuilder failing_client ''WITHIN'' ''fleet'' example_area)))
     (Args (toCmd empty_memory (newGeofenceQueryBuilder failing_client ''WITHIN'' ''fleet'' example_area)))
     = Inl ''connection refused'' \<and>
   Do empty_memory (newGeofenceQueryBuilder failing_client ''WITHIN'' ''fleet'' example_area)
     example_decode (\<lambda>resp calls. calls @ [resp]) []
     = (Some (CommandError
          \<lparr>Name = ''WITHIN'', Args = [''fleet'', ''FENCE'', ''GET'', ''zones'', ''a'']\<rparr>
          ''connection refused''), [])"
  using start_error_is_returned
    [where cl = failing_client and req = "IsRoamRequest (GeofenceRoam ''fleet'' ''truck'' ''*'' 500)"
       and err = "''connection refused''" and err' = "''connection refused''"
       and query = "newGeofenceQueryBuilder failing_client ''WITHIN'' ''fleet'' example_area"
       and m = empty_memory and decode = example_decode
       and handler = "\<lambda>resp calls. calls @ [resp]" and s = "[]"]
  by (simp add: failing_client_def newGeofenceQueryBuilder_def toCmd_area_eq args_eq
      slice_elems_def nil_slice_def fragments_def example_area_def NewCommand_def zeroCommand_def)

subsection \<open>C8\<close>

text \<open>
  Claim C8: from a builder \<open>b1\<close>, the builders \<open>b2 := b1.Limit(5)\<close> and \<open>b3 := b1.Limit(10)\<close> are
  independent: the command of \<open>b2\<close> has \<open>LIMIT 5\<close>, that of \<open>b3\<close> has \<open>LIMIT 10\<close>, and
  \<open>b1\<close> is unchanged.

  The builder is copied, the backing array of its options is not. With
  \<open>b1 := newGeofenceQueryBuilder(c, "WITHIN", "fleet", area).Asc().Desc().NoFields()\<close> the
  option slice of \<open>b1\<close> has length 3 and capacity 4, both calls of \<open>Limit\<close> append in place
  at index 3, and the second overwrites the first: right after its creation \<open>b2\<close> assembles
  \<open>LIMIT 5\<close>, but once \<open>b3\<close> exists \<open>b2\<close> assembles \<open>LIMIT 10\<close>. The builders \<open>b3\<close> and
  \<open>b1\<close> assemble what the claim says. The same happens under any growth policy whenever
  \<open>b1\<close> has spare capacity (lemma \<open>second_branch_overwrites_first\<close>).
\<close>

theorem Limit_branches_share_backing_array:
  "(case Asc double_growth empty_memory (newGeofenceQueryBuilder cl ''WITHIN'' ''fleet'' ar) of
      (q1, m1) \<Rightarrow>
    case Desc double_growth m1 q1 of (q2, m2) \<Rightarrow>
    case NoFields double_growth m2 q2 of (b1, m3) \<Rightarrow>
    case Limit double_growth m3 b1 5 of (b2, m4) \<Rightarrow>
    case Limit double_growth m4 b1 10 of (b3, m5) \<Rightarrow>
      Args (toCmd m4 b2) =
        [''fleet'', ''ASC'', ''DESC'', ''NOFIELDS'', ''LIMIT'', ''5'', ''FENCE'', Name ar] @ Args ar \<and>
      Args (toCmd m5 b2) =
        [''fleet'', ''ASC'', ''DESC'', ''NOFIELDS'', ''LIMIT'', ''10'', ''FENCE'', Name ar] @ Args ar \<and>
      Args (toCmd m5 b3) =
        [''fleet'', ''ASC'', ''DESC'', ''NOFIELDS'', ''LIMIT'', ''10'', ''FENCE'', Name ar] @ Args ar \<and>
      Args (toCmd m5 b1) =
        [''fleet'', ''ASC'', ''DESC'', ''NOFIELDS'', ''FENCE'', Name ar] @ Args ar \<and>
      searchOpts b1 = \<lparr>ptr = 2, len = 3, cap = 4\<rparr> \<and>
      searchOpts b2 = \<lparr>ptr = 2, len = 4, cap = 4\<rparr> \<and>
      searchOpts b3 = \<lparr>ptr = 2, len = 4, cap = 4\<rparr>)"
  by (simp add: Asc_def Desc_def NoFields_def Limit_def add_searchOpt_def append_slice_def
      newGeofenceQueryBuilder_def nil_slice_def empty_memory_def double_growth_def
      toCmd_area_eq args_eq slice_elems_def store_at_def fragments_def NewCommand_def
      Itoa_def digits.simps digit_char_def Let_def zeroCommand_def)

subsection \<open>C9\<close>

text \<open>
  Claim C9: in both modes the decoded events reach the consumer in the order in which the
  stream yielded the payloads: what has been delivered is always the decoded image of a
  prefix of the stream, nothing is reordered, dropped or batched.

  Queue mode, under every schedule: the records received are the decoded image of a prefix of
  the stream; a reader that has seen the closure has received every record up to the first
  payload that fails to decode; one move delivers at most one record. Callback mode: the
  handler is called on these same records, in this order.
\<close>

theorem events_delivered_in_stream_order:
  "(ExecuteStream cl (Name (GeofenceCommand req)) (Args (GeofenceCommand req)) = Inr events \<longrightarrow>
      Fence cl req = Inr (fence_start events) \<and>
      (\<exists>k. map decode (take k events)
            = map Inr (received (run decode sched (fence_start events)))) \<and>
      (saw_close (run decode sched (fence_start events)) \<longrightarrow>
         received (run decode sched (fence_start events)) = decoded_prefix decode events) \<and>
      (received (step decode t (run decode sched (fence_start events)))
         = received (run decode sched (fence_start events)) \<or>
       (\<exists>v. received (step decode t (run decode sched (fence_start events)))
            = received (run decode sched (fence_start events)) @ [v]))) \<and>
   (ExecuteStream (client query) (Name (toCmd m query)) (Args (toCmd m query)) = Inr events' \<longrightarrow>
      snd (Do m query decode' handler s) = fold handler (decoded_prefix decode' events') s \<and>
      snd (Do m query decode' (\<lambda>resp calls. calls @ [resp]) []) = decoded_prefix decode' events') \<and>
   (\<exists>k\<le>length events.
      map decode (take k events) = map Inr (decoded_prefix decode events) \<and>
      (k < length events \<longrightarrow> (\<exists>err. decode (events ! k) = Inl err)))"
proof (intro conjI impI)
  let ?st = "run decode sched (fence_start events)"
  assume "ExecuteStream cl (Name (GeofenceCommand req)) (Args (GeofenceCommand req)) = Inr events"
  then show "Fence cl req = Inr (fence_start events)"
    by (simp add: Fence_def Let_def)
  have inv: "fence_inv decode events ?st"
    by (rule fence_inv_reachable)
  obtain k where "map decode (take k events) = map Inr (decoded_prefix decode events)"
    using decoded_prefix_is_image by blast
  from image_of_prefix_take [OF this]
  obtain j where "map decode (take j events)
                  = map Inr (take (length (received ?st)) (decoded_prefix decode events))" ..
  with received_is_prefix [OF inv] have "map decode (take j events) = map Inr (received ?st)"
    by simp
  then show "\<exists>k. map decode (take k events) = map Inr (received ?st)" ..
  show "received (step decode t ?st) = received ?st \<or>
        (\<exists>v. received (step decode t ?st) = received ?st @ [v])"
    by (rule step_delivers_at_most_one)
  assume "saw_close ?st"
  with inv show "received ?st = decoded_prefix decode events"
    by (rule received_complete)
next
  assume started: "ExecuteStream (client query) (Name (toCmd m query)) (Args (toCmd m query))
                   = Inr events'"
  show "snd (Do m query decode' handler s) = fold handler (decoded_prefix decode' events') s"
    by (simp add: Do_started [OF started])
  show "snd (Do m query decode' (\<lambda>resp calls. calls @ [resp]) []) = decoded_prefix decode' events'"
    by (simp add: Do_started [OF started] fold_record_calls)
next
  show "\<exists>k\<le>length events.
      map decode (take k events) = map Inr (decoded_prefix decode events) \<and>
      (k < length events \<longrightarrow> (\<exists>err. decode (events ! k) = Inl err))"
    by (rule decoded_prefix_maximal)
qed

theorem events_delivered_in_stream_order_witness:
  "ExecuteStream (stream_client [''ab'', ''abc'', ''{'', ''a''])
     (Name (GeofenceCommand (IsRequest (GeofenceWithin ''fleet'' example_area))))
     (Args (GeofenceCommand (IsRequest (GeofenceWithin ''fleet'' example_area))))
     = Inr [''ab'', ''abc'', ''{'', ''a''] \<and>
   saw_close (run example_decode [Task, Task, Reader, Task, Task, Task, Reader, Reader]
     (fence_start [''ab'', ''abc'', ''{'', ''a''])) \<and>
   received (run example_decode [Task, Task, Reader, Task, Task, Task, Reader, Reader]
     (fence_start [''ab'', ''abc'', ''{'', ''a''])) = [2, 3] \<and>
   decoded_prefix example_decode [''ab'', ''abc'', ''{'', ''a''] = [2, 3] \<and>
   ExecuteStream (client (newGeofenceQueryBuilder (stream_client [''ab'', ''abc'', ''{'', ''a''])
       ''WITHIN'' ''fleet'' example_area))
     (Name (toCmd empty_memory (newGeofenceQueryBuilder (stream_client [''ab'', ''abc'', ''{'', ''a''])
       ''WITHIN'' ''fleet'' example_area)))
     (Args (toCmd empty_memory (newGeofenceQueryBuilder (stream_client [''ab'', ''abc'', ''{'', ''a''])
       ''WITHIN'' ''fleet'' example_area)))
     = Inr [''ab'', ''abc'', ''{'', ''a''] \<and>
   snd (Do empty_memory (newGeofenceQueryBuilder (stream_client [''ab'', ''abc'', ''{'', ''a''])
       ''WITHIN'' ''fleet'' example_area) example_decode (\<lambda>resp calls. calls @ [resp]) [])
     = [2, 3]"
  using events_delivered_in_stream_order
    [where cl = "stream_client [''ab'', ''abc'', ''{'', ''a'']"
       and req = "IsRequest (GeofenceWithin ''fleet'' example_area)"
       and events = "[''ab'', ''abc'', ''{'', ''a'']" and decode = example_decode
       and sched = "[Task, Task, Reader, Task, Task, Task, Reader, Reader]" and t = Reader
       and query = "newGeofenceQueryBuilder (stream_client [''ab'', ''abc'', ''{'', ''a''])
                      ''WITHIN'' ''fleet'' example_area"
       and m = empty_memory and events' = "[''ab'', ''abc'', ''{'', ''a'']"
       and decode' = example_decode and handler = "\<lambda>resp calls. calls @ [resp]" and s = "[]"]
  by (auto simp: example_decode_def stream_client_def newGeofenceQueryBuilder_def run_def
      task_step_def reader_step_def fence_start_def chan_capacity_def)

subsection \<open>C10\<close>

text \<open>
  Claim C10: on \<open>Request\<close> and \<open>RoamRequest\<close> the setters \<open>Actions\<close>, \<open>WithOptions\<close> and
  \<open>Format\<close> overwrite: after \<open>WithOptions(o1...)\<close> and then \<open>WithOptions(o2...)\<close> the command
  has the options \<open>o2\<close> only, and a second \<open>Actions\<close> replaces the first list. On the unified
  builder \<open>Actions\<close>, \<open>Commands\<close> and the search-option methods append to what is there.

  For the requests, the whole command is given after each of the three setters has been
  called twice: it has the second options, the second actions and the second format, and
  nothing of the first ones. For the builder, \<open>Actions\<close> and \<open>Commands\<close> called twice read
  the old tags followed by those of both calls, and each of \<open>Asc\<close>, \<open>Desc\<close>, \<open>NoFields\<close>,
  \<open>Clip\<close>, \<open>Distance\<close>, \<open>Cursor\<close>, \<open>Limit\<close>, \<open>Sparse\<close>, \<open>Where\<close>, \<open>Wherein\<close> and \<open>Match\<close>
  reads the old options followed by its own fragment, leaves the other fields of the builder
  as they were and does not touch the tags.
\<close>

theorem fixed_setters_overwrite_builder_appends:
  "Request_WithOptions (Request_WithOptions req o1) o2 = Request_WithOptions req o2 \<and>
   Request_Actions (Request_Actions req a1) a2 = Request_Actions req a2 \<and>
   Request_Format (Request_Format req f1) f2 = Request_Format req f2 \<and>
   Args (Request_GeofenceCommand (Request_Actions (Request_WithOptions
          (Request_Actions (Request_WithOptions req o1) a1) o2) a2)) =
     Request.Key req # fragments o2
     @ [''FENCE'']
     @ (if a2 = [] then [] else [''DETECT'', joined_with_commas a2])
     @ (if Name (Request.OutputFormat req) = [] then []
        else Name (Request.OutputFormat req) # Args (Request.OutputFormat req))
     @ Name (Area req) # Args (Area req) \<and>
   RoamRequest_WithOptions (RoamRequest_WithOptions rreq o1) o2 = RoamRequest_WithOptions rreq o2 \<and>
   RoamRequest_Actions (RoamRequest_Actions rreq a1) a2 = RoamRequest_Actions rreq a2 \<and>
   RoamRequest_Format (RoamRequest_Format rreq f1) f2 = RoamRequest_Format rreq f2 \<and>
   Args (RoamRequest_GeofenceCommand (RoamRequest_Actions (RoamRequest_WithOptions
          (RoamRequest_Actions (RoamRequest_WithOptions rreq o1) a1) o2) a2)) =
     RoamRequest.Key rreq # fragments o2
     @ [''FENCE'']
     @ (if a2 = [] then [] else [''DETECT'', joined_with_commas a2])
     @ (if Name (RoamRequest.OutputFormat rreq) = [] then []
        else Name (RoamRequest.OutputFormat rreq) # Args (RoamRequest.OutputFormat rreq))
     @ [''ROAM'', Target rreq, Pattern rreq, Itoa (Meters rreq)] \<and>
   slice_elems (strs (snd (Actions g m query acts))) (detectActions (fst (Actions g m query acts)))
     = slice_elems (strs m) (detectActions query) @ acts \<and>
   slice_elems (strs (snd (Commands g m query tags))) (notifyCommands (fst (Commands g m query tags)))
     = slice_elems (strs m) (notifyCommands query) @ tags \<and>
   slice_elems (cmds (snd (add_searchOpt g m query c))) (searchOpts (fst (add_searchOpt g m query c)))
     = slice_elems (cmds m) (searchOpts query) @ [c] \<and>
   Request_GeofenceCommand
     (Request_Format (Request_Actions (Request_WithOptions
        (Request_Format (Request_Actions (Request_WithOptions req o1) a1) f1) o2) a2) f2)
   = \<lparr>Name = Cmd req,
      Args = Request.Key req # fragments o2
        @ [''FENCE'']
        @ (if a2 = [] then [] else [''DETECT'', joined_with_commas a2])
        @ (if Name f2 = [] then [] else Name f2 # Args f2)
        @ Name (Area req) # Args (Area req)\<rparr> \<and>
   RoamRequest_GeofenceCommand
     (RoamRequest_Format (RoamRequest_Actions (RoamRequest_WithOptions
        (RoamRequest_Format (RoamRequest_Actions (RoamRequest_WithOptions rreq o1) a1) f1) o2) a2) f2)
   = \<lparr>Name = ''NEARBY'',
      Args = RoamRequest.Key rreq # fragments o2
        @ [''FENCE'']
        @ (if a2 = [] then [] else [''DETECT'', joined_with_commas a2])
        @ (if Name f2 = [] then [] else Name f2 # Args f2)
        @ [''ROAM'', Target rreq, Pattern rreq, Itoa (Meters rreq)]\<rparr> \<and>
   fst (Actions g m query acts)
     = query\<lparr>detectActions := detectActions (fst (Actions g m query acts))\<rparr> \<and>
   cmds (snd (Actions g m query acts)) = cmds m \<and>
   slice_elems
     (strs (snd (Actions g (snd (Actions g m query a1)) (fst (Actions g m query a1)) a2)))
     (detectActions (fst (Actions g (snd (Actions g m query a1)) (fst (Actions g m query a1)) a2)))
   = slice_elems (strs m) (detectActions query) @ a1 @ a2 \<and>
   fst (Commands g m query tags)
     = query\<lparr>notifyCommands := notifyCommands (fst (Commands g m query tags))\<rparr> \<and>
   cmds (snd (Commands g m query tags)) = cmds m \<and>
   slice_elems
     (strs (snd (Commands g (snd (Commands g m query t1)) (fst (Commands g m query t1)) t2)))
     (notifyCommands (fst (Commands g (snd (Commands g m query t1)) (fst (Commands g m query t1)) t2)))
   = slice_elems (strs m) (notifyCommands query) @ t1 @ t2 \<and>
   slice_elems (cmds (snd (Asc g m query))) (searchOpts (fst (Asc g m query)))
     = slice_elems (cmds m) (searchOpts query) @ [\<lparr>Name = ''ASC'', Args = []\<rparr>] \<and>
   fst (Asc g m query) = query\<lparr>searchOpts := searchOpts (fst (Asc g m query))\<rparr> \<and>
   strs (snd (Asc g m query)) = strs m \<and>
   slice_elems (cmds (snd (Desc g m query))) (searchOpts (fst (Desc g m query)))
     = slice_elems (cmds m) (searchOpts query) @ [\<lparr>Name = ''DESC'', Args = []\<rparr>] \<and>
   fst (Desc g m query) = query\<lparr>searchOpts := searchOpts (fst (Desc g m query))\<rparr> \<and>
   strs (snd (Desc g m query)) = strs m \<and>
   slice_elems (cmds (snd (NoFields g m query))) (searchOpts (fst (NoFields g m query)))
     = slice_elems (cmds m) (searchOpts query) @ [\<lparr>Name = ''NOFIELDS'', Args = []\<rparr>] \<and>
   fst (NoFields g m query) = query\<lparr>searchOpts := searchOpts (fst (NoFields g m query))\<rparr> \<and>
   strs (snd (NoFields g m query)) = strs m \<and>
   slice_elems (cmds (snd (Clip g m query))) (searchOpts (fst (Clip g m query)))
     = slice_elems (cmds m) (searchOpts query) @ [\<lparr>Name = ''CLIP'', Args = []\<rparr>] \<and>
   fst (Clip g m query) = query\<lparr>searchOpts := searchOpts (fst (Clip g m query))\<rparr> \<and>
   strs (snd (Clip g m query)) = strs m \<and>
   slice_elems (cmds (snd (Distance g m query))) (searchOpts (fst (Distance g m query)))
     = slice_elems (cmds m) (searchOpts query) @ [\<lparr>Name = ''DISTANCE'', Args = []\<rparr>] \<and>
   fst (Distance g m query) = query\<lparr>searchOpts := searchOpts (fst (Distance g m query))\<rparr> \<and>
   strs (snd (Distance g m query)) = strs m \<and>
   slice_elems (cmds (snd (Cursor g m query n))) (searchOpts (fst (Cursor g m query n)))
     = slice_elems (cmds m) (searchOpts query) @ [\<lparr>Name = ''CURSOR'', Args = [Itoa n]\<rparr>] \<and>
   fst (Cursor g m query n) = query\<lparr>searchOpts := searchOpts (fst (Cursor g m query n))\<rparr> \<and>
   strs (snd (Cursor g m query n)) = strs m \<and>
   slice_elems (cmds (snd (Limit g m query n))) (searchOpts (fst (Limit g m query n)))
     = slice_elems (cmds m) (searchOpts query) @ [\<lparr>Name = ''LIMIT'', Args = [Itoa n]\<rparr>] \<and>
   fst (Limit g m query n) = query\<lparr>searchOpts := searchOpts (fst (Limit g m query n))\<rparr> \<and>
   strs (snd (Limit g m query n)) = strs m \<and>
   slice_elems (cmds (snd (Sparse g m query n))) (searchOpts (fst (Sparse g m query n)))
     = slice_elems (cmds m) (searchOpts query) @ [\<lparr>Name = ''SPARSE'', Args = [Itoa n]\<rparr>] \<and>
   fst (Sparse g m query n) = query\<lparr>searchOpts := searchOpts (fst (Sparse g m query n))\<rparr> \<and>
   strs (snd (Sparse g m query n)) = strs m \<and>
   slice_elems (cmds (snd (Where fs g m query field lo hi))) (searchOpts (fst (Where fs g m query field lo hi)))
     = slice_elems (cmds m) (searchOpts query) @ [\<lparr>Name = ''WHERE'', Args = [field, fs lo, fs hi]\<rparr>] \<and>
   fst (Where fs g m query field lo hi) = query\<lparr>searchOpts := searchOpts (fst (Where fs g m query field lo hi))\<rparr> \<and>
   strs (snd (Where fs g m query field lo hi)) = strs m \<and>
   slice_elems (cmds (snd (Wherein fs g m query field vals))) (searchOpts (fst (Wherein fs g m query field vals)))
     = slice_elems (cmds m) (searchOpts query) @ [\<lparr>Name = ''WHEREIN'', Args = Itoa (int (length vals)) # map fs vals\<rparr>] \<and>
   fst (Wherein fs g m query field vals) = query\<lparr>searchOpts := searchOpts (fst (Wherein fs g m query field vals))\<rparr> \<and>
   strs (snd (Wherein fs g m query field vals)) = strs m \<and>
   slice_elems (cmds (snd (Match g m query pat))) (searchOpts (fst (Match g m query pat)))
     = slice_elems (cmds m) (searchOpts query) @ [\<lparr>Name = ''MATCH'', Args = [pat]\<rparr>] \<and>
   fst (Match g m query pat) = query\<lparr>searchOpts := searchOpts (fst (Match g m query pat))\<rparr> \<and>
   strs (snd (Match g m query pat)) = strs m"
  by (intro conjI)
    (rule Request_setters_command RoamRequest_setters_command Actions_appends Commands_appends
       Actions_twice Commands_twice add_searchOpt_appends Asc_appends Desc_appends NoFields_appends
       Clip_appends Distance_appends Cursor_appends Limit_appends Sparse_appends Where_appends
       Wherein_appends Match_appends
     | simp add: Request_args_eq RoamRequest_args_eq
         Request_WithOptions_def Request_Actions_def Request_Format_def
         RoamRequest_WithOptions_def RoamRequest_Actions_def RoamRequest_Format_def)+

theorem fixed_setters_overwrite_builder_appends_witness:
  "Request_GeofenceCommand
     (Request_Format (Request_Actions (Request_WithOptions
        (Request_Format (Request_Actions (Request_WithOptions (GeofenceWithin ''fleet'' example_area)
           [NewCommand ''LIMIT'' [''5'']]) [''enter'']) (NewCommand ''POINTS'' []))
        [NewCommand ''NOFIELDS'' []]) [''exit'', ''cross'']) (NewCommand ''HASHES'' [''7'']))
   = \<lparr>Name = ''WITHIN'',
      Args = [''fleet'', ''NOFIELDS'', ''FENCE'', ''DETECT'', ''exit,cross'', ''HASHES'', ''7'',
              ''GET'', ''zones'', ''a'']\<rparr> \<and>
   RoamRequest_GeofenceCommand
     (RoamRequest_Format (RoamRequest_Actions (RoamRequest_WithOptions
        (RoamRequest_Format (RoamRequest_Actions (RoamRequest_WithOptions
           (GeofenceRoam ''fleet'' ''truck'' ''*'' 500)
           [NewCommand ''LIMIT'' [''5'']]) [''enter'']) (NewCommand ''POINTS'' []))
        [NewCommand ''NOFIELDS'' []]) [''exit'', ''cross'']) (NewCommand ''HASHES'' [''7'']))
   = \<lparr>Name = ''NEARBY'',
      Args = [''fleet'', ''NOFIELDS'', ''FENCE'', ''DETECT'', ''exit,cross'', ''HASHES'', ''7'',
              ''ROAM'', ''truck'', ''*'', ''500'']\<rparr> \<and>
   slice_elems
     (cmds (snd (Match double_growth empty_memory
        (newGeofenceQueryBuilder (stream_client []) ''WITHIN'' ''fleet'' example_area) ''truck*'')))
     (searchOpts (fst (Match double_growth empty_memory
        (newGeofenceQueryBuilder (stream_client []) ''WITHIN'' ''fleet'' example_area) ''truck*'')))
   = [\<lparr>Name = ''MATCH'', Args = [''truck*'']\<rparr>] \<and>
   slice_elems
     (strs (snd (Actions double_growth
        (snd (Actions double_growth empty_memory
           (newGeofenceQueryBuilder (stream_client []) ''WITHIN'' ''fleet'' example_area) [''enter'']))
        (fst (Actions double_growth empty_memory
           (newGeofenceQueryBuilder (stream_client []) ''WITHIN'' ''fleet'' example_area) [''enter'']))
        [''exit'', ''cross''])))
     (detectActions (fst (Actions double_growth
        (snd (Actions double_growth empty_memory
           (newGeofenceQueryBuilder (stream_client []) ''WITHIN'' ''fleet'' example_area) [''enter'']))
        (fst (Actions double_growth empty_memory
           (newGeofenceQueryBuilder (stream_client []) ''WITHIN'' ''fleet'' example_area) [''enter'']))
        [''exit'', ''cross''])))
   = [''enter'', ''exit'', ''cross'']"
  using fixed_setters_overwrite_builder_appends
    [where req = "GeofenceWithin ''fleet'' example_area"
       and rreq = "GeofenceRoam ''fleet'' ''truck'' ''*'' 500"
       and ?o1.0 = "[NewCommand ''LIMIT'' [''5'']]" and ?o2.0 = "[NewCommand ''NOFIELDS'' []]"
       and ?a1.0 = "[''enter'']" and ?a2.0 = "[''exit'', ''cross'']"
       and ?f1.0 = "NewCommand ''POINTS'' []" and ?f2.0 = "NewCommand ''HASHES'' [''7'']"
       and g = double_growth and m = empty_memory
       and query = "newGeofenceQueryBuilder (stream_client []) ''WITHIN'' ''fleet'' example_area"
       and pat = "''truck*''" and acts = "[''enter'']" and tags = "[''set'']"
       and c = "NewCommand ''ASC'' []" and ?t1.0 = "[''set'']" and ?t2.0 = "[''del'']"
       and n = 5 and fs = Itoa and field = "''speed''" and lo = 1 and hi = 2 and vals = "[1, 2]"]
  by (simp add: GeofenceWithin_def GeofenceRoam_def example_area_def NewCommand_def fragments_def
      joined_with_commas_def newGeofenceQueryBuilder_def nil_slice_def empty_memory_def
      slice_elems_def Itoa_def digits.simps digit_char_def zeroCommand_def Actions_def Match_def
      add_searchOpt_def append_slice_def store_at_def double_growth_def Let_def
      Request_Format_def Request_Actions_def Request_WithOptions_def
      RoamRequest_Format_def RoamRequest_Actions_def RoamRequest_WithOptions_def
      Request_GeofenceCommand_def RoamRequest_GeofenceCommand_def
      append_options_eq append_detect_eq append_format_eq)

end
